theory Spec2Isabelle
  imports Main "HOL-Library.Sublist"
begin

section \<open>JavaScript values, errors and the process environment\<close>

text \<open>
  The service is JavaScript. A JavaScript string is modelled as a \<open>string\<close> (a list of
  8-bit characters), so the model covers the strings whose code units are below 256; among
  those the line terminators, which the regular-expression dot refuses, are line feed and
  carriage return.

  A function argument of the source can hold any value. The values that reach the key
  codec are strings and \<open>null\<close> (the two locator columns of the table), but the codec's
  own guards (\<open>if (!url)\<close>, \<open>try ... catch\<close>) are written for any value, so the model keeps
  the other kinds too.
\<close>

datatype js_value = JNull | JUndefined | JStr string | JNum int | JBool bool | JObj

fun truthy :: "js_value \<Rightarrow> bool" where
  "truthy JNull = False"
| "truthy JUndefined = False"
| "truthy (JStr s) = (s \<noteq> [])"
| "truthy (JNum n) = (n \<noteq> 0)"
| "truthy (JBool b) = b"
| "truthy JObj = True"

text \<open>An exception object: its \<open>name\<close> and its \<open>message\<close>.\<close>

datatype js_error = Err string string

fun err_name :: "js_error \<Rightarrow> string" where
  "err_name (Err n m) = n"

fun err_message :: "js_error \<Rightarrow> string" where
  "err_message (Err n m) = m"

definition new_Error :: "string \<Rightarrow> js_error" where
  "new_Error m = Err ''Error'' m"

text \<open>
  \<open>process.env\<close>: the bucket name, the optional CDN base URL and the deployment mode.
  A variable that is not set is \<open>None\<close>; the bucket name is the text that a template
  literal makes of \<open>S3_BUCKET\<close>.
\<close>

record env =
  S3_BUCKET :: string
  S3_CDN_URL :: "string option"
  NODE_ENV :: "string option"

section \<open>Key codec\<close>

subsection \<open>String primitives of the source\<close>

text \<open>\<open>s.startsWith(p)\<close> is \<^const>\<open>prefix\<close> \<open>p s\<close>.\<close>

text \<open>
  \<open>url.replace(/^s3:\/\/[^/]+\//, '')\<close>: when the string starts with \<open>s3://\<close>, followed by
  one or more characters other than \<open>/\<close> and then a \<open>/\<close>, that whole prefix is removed;
  otherwise the regular expression does not match and \<open>replace\<close> returns the string as
  it is.
\<close>

definition replace_s3_prefix :: "string \<Rightarrow> string" where
  "replace_s3_prefix url =
     (if prefix ''s3://'' url then
        (let rest = drop 5 url;
             host = takeWhile (\<lambda>c. c \<noteq> CHR ''/'') rest;
             tail = dropWhile (\<lambda>c. c \<noteq> CHR ''/'') rest
         in if host \<noteq> [] \<and> tail \<noteq> [] then tl tail else url)
      else url)"

text \<open>
  \<open>s.replace(pat, '')\<close> with a string pattern: the first (leftmost) occurrence of
  \<open>pat\<close> is removed; without an occurrence the string is returned as it is.
\<close>

fun replace_first :: "string \<Rightarrow> string \<Rightarrow> string" where
  "replace_first pat [] = []"
| "replace_first pat (c # cs) =
     (if prefix pat (c # cs) then drop (length pat) (c # cs)
      else c # replace_first pat cs)"

definition line_terminator :: "char \<Rightarrow> bool" where
  "line_terminator c = (c = CHR 0x0A \<or> c = CHR 0x0D)"

text \<open>
  \<open>url.match(/\.amazonaws\.com\/(.+)$/)\<close>: the leftmost position where the literal
  \<open>.amazonaws.com/\<close> occurs and is followed, up to the end of the string, by one or more
  characters none of which is a line terminator. The value is the capture group, or
  \<open>None\<close> for \<open>null\<close> (no match). \<open>match_here\<close> is the attempt at one position.
\<close>

definition match_here :: "string \<Rightarrow> string option" where
  "match_here s =
     (if prefix ''.amazonaws.com/'' s
         \<and> drop 15 s \<noteq> []
         \<and> list_all (\<lambda>x. \<not> line_terminator x) (drop 15 s)
      then Some (drop 15 s)
      else None)"

fun match_amazonaws :: "string \<Rightarrow> string option" where
  "match_amazonaws [] = None"
| "match_amazonaws (c # cs) =
     (case match_here (c # cs) of
        Some k \<Rightarrow> Some k
      | None \<Rightarrow> match_amazonaws cs)"

subsection \<open>\<open>extractKeyFromUrl\<close> (s3Service.js)\<close>

text \<open>
  The \<open>try\<close> block. On a value that is not a string, \<open>url.startsWith\<close> is not a function
  and the call raises a \<open>TypeError\<close>. \<open>S3_CDN_URL &&\<close> holds for a set, non-empty variable.
  \<open>s3Match && s3Match[1]\<close> holds whenever the expression matched, its group being non-empty.
\<close>

definition cdn_applies :: "string option \<Rightarrow> string \<Rightarrow> bool" where
  "cdn_applies cdn url = (case cdn of None \<Rightarrow> False | Some c \<Rightarrow> c \<noteq> [] \<and> prefix c url)"

definition cdn_text :: "string option \<Rightarrow> string" where
  "cdn_text cdn = (case cdn of None \<Rightarrow> ''undefined'' | Some c \<Rightarrow> c)"

fun extractKeyFromUrl_try :: "env \<Rightarrow> js_value \<Rightarrow> js_error + string option" where
  "extractKeyFromUrl_try e (JStr url) =
     (if prefix ''s3://'' url then Inr (Some (replace_s3_prefix url))
      else if cdn_applies (S3_CDN_URL e) url
      then Inr (Some (replace_first (cdn_text (S3_CDN_URL e) @ ''/'') url))
      else (case match_amazonaws url of
              Some k \<Rightarrow> Inr (Some k)
            | None \<Rightarrow> Inr None))"
| "extractKeyFromUrl_try e v = Inl (Err ''TypeError'' ''url.startsWith is not a function'')"

text \<open>
  The whole function: the falsy guard, then the \<open>try\<close> block, whose exceptions the
  \<open>catch\<close> turns into \<open>null\<close>. \<open>Inr None\<close> is a returned \<open>null\<close>, \<open>Inl\<close> would be
  an exception leaving the function.
\<close>

definition extractKeyFromUrl :: "env \<Rightarrow> js_value \<Rightarrow> js_error + string option" where
  "extractKeyFromUrl e url =
     (if \<not> truthy url then Inr None
      else (case extractKeyFromUrl_try e url of
              Inr r \<Rightarrow> Inr r
            | Inl err \<Rightarrow> Inr None))"

subsection \<open>\<open>extractS3Key\<close> (presignedUrl.js)\<close>

text \<open>
  The second implementation, in the presigned-URL module. It reads \<open>S3_CDN_URL\<close> from
  the environment at each call; the steps are written out again from its own source.
\<close>

fun extractS3Key_try :: "env \<Rightarrow> js_value \<Rightarrow> js_error + string option" where
  "extractS3Key_try e (JStr contentUrl) =
     (if prefix ''s3://'' contentUrl then Inr (Some (replace_s3_prefix contentUrl))
      else if cdn_applies (S3_CDN_URL e) contentUrl
      then Inr (Some (replace_first (cdn_text (S3_CDN_URL e) @ ''/'') contentUrl))
      else (case match_amazonaws contentUrl of
              Some k \<Rightarrow> Inr (Some k)
            | None \<Rightarrow> Inr None))"
| "extractS3Key_try e v =
     Inl (Err ''TypeError'' ''contentUrl.startsWith is not a function'')"

definition extractS3Key :: "env \<Rightarrow> js_value \<Rightarrow> js_error + string option" where
  "extractS3Key e contentUrl =
     (if \<not> truthy contentUrl then Inr None
      else (case extractS3Key_try e contentUrl of
              Inr r \<Rightarrow> Inr r
            | Inl err \<Rightarrow> Inr None))"

subsection \<open>The three locator shapes\<close>

text \<open>
  The shapes named in the two functions' documentation: \<open>s3://bucket/key\<close>,
  \<open>https://bucket.s3.region.amazonaws.com/key\<close> and \<open>https://cdn-domain.com/key\<close>
  (the configured CDN base followed by \<open>/\<close> and the key).
\<close>

definition s3_uri :: "string \<Rightarrow> string \<Rightarrow> string" where
  "s3_uri bucket key = ''s3://'' @ bucket @ ''/'' @ key"

definition s3_https_url :: "string \<Rightarrow> string \<Rightarrow> string \<Rightarrow> string" where
  "s3_https_url bucket region key =
     ''https://'' @ bucket @ ''.s3.'' @ region @ ''.amazonaws.com/'' @ key"

definition cdn_url :: "string \<Rightarrow> string \<Rightarrow> string" where
  "cdn_url cdn key = cdn @ ''/'' @ key"

section \<open>The object store and the record store\<close>

subsection \<open>State\<close>

text \<open>
  An object of the bucket: its bytes and its content type (\<open>None\<close> when the caller passed
  \<open>undefined\<close>). The commands are those the source sends through the S3 client; the
  bucket is always \<open>S3_BUCKET\<close>, so a command carries the key only.
\<close>

record s3_object =
  body :: string
  contentType :: "string option"

datatype s3_command =
    PutObjectCommand string s3_object
  | DeleteObjectCommand string
  | HeadObjectCommand string
  | GetObjectCommand string

text \<open>
  The world a request runs in: the bucket's objects, the commands sent so far in the order
  they were sent, the table's rows, the next identifier of the autoincrement column, the
  clock, and the lines written with \<open>logger.error\<close>. The two fault schedules say how
  the outside answers: the head of \<open>s3_faults\<close> (\<open>db_faults\<close>) is consumed by the next
  call to the object store (record store); \<open>Some err\<close> makes that call fail with
  \<open>err\<close> and leave the store as it was, \<open>None\<close> or an exhausted schedule lets it run.
  A fault schedule is how the model covers every pattern of transport failures.
\<close>

record 'r world =
  objects :: "string \<rightharpoonup> s3_object"
  sent :: "s3_command list"
  s3_faults :: "js_error option list"
  rows :: "'r list"
  next_id :: int
  clock :: int
  db_faults :: "js_error option list"
  error_log :: "string list"

subsection \<open>Sequencing\<close>

text \<open>
  An asynchronous function of the source is a function from the world to a result and the
  world after it; \<open>Inl\<close> is a rejected promise (a thrown exception). \<open>await m k\<close>
  runs \<open>m\<close> and continues with \<open>k\<close> on its value; an exception of \<open>m\<close> ends the
  sequence, as it does at an \<open>await\<close> outside a \<open>try\<close>.
\<close>

type_synonym ('a, 'r) io = "'r world \<Rightarrow> (js_error + 'a) \<times> 'r world"

definition return :: "'a \<Rightarrow> ('a, 'r) io" where
  "return v = (\<lambda>w. (Inr v, w))"

definition throw :: "js_error \<Rightarrow> ('a, 'r) io" where
  "throw err = (\<lambda>w. (Inl err, w))"

definition await :: "('a, 'r) io \<Rightarrow> ('a \<Rightarrow> ('b, 'r) io) \<Rightarrow> ('b, 'r) io" where
  "await m k = (\<lambda>w. case m w of
                      (Inl err, w') \<Rightarrow> (Inl err, w')
                    | (Inr v, w') \<Rightarrow> k v w')"

definition try_catch :: "('a, 'r) io \<Rightarrow> (js_error \<Rightarrow> ('a, 'r) io) \<Rightarrow> ('a, 'r) io" where
  "try_catch m handler = (\<lambda>w. case m w of
                                 (Inl err, w') \<Rightarrow> handler err w'
                               | (Inr v, w') \<Rightarrow> (Inr v, w'))"

definition logger_error :: "string \<Rightarrow> (unit, 'r) io" where
  "logger_error line = (\<lambda>w. (Inr (), w\<lparr>error_log := error_log w @ [line]\<rparr>))"

subsection \<open>The S3 client\<close>

text \<open>
  \<open>s3Client.send(command)\<close>. Put overwrites, delete of an absent key succeeds, head
  and get of an absent key fail with the provider's \<open>NotFound\<close> and \<open>NoSuchKey\<close>.
  The value is the body for a get and \<open>None\<close> otherwise.
\<close>

definition s3_run :: "s3_command \<Rightarrow> 'r world \<Rightarrow> (js_error + string option) \<times> 'r world" where
  "s3_run cmd w =
     (case cmd of
        PutObjectCommand k obj \<Rightarrow> (Inr None, w\<lparr>objects := (objects w)(k \<mapsto> obj)\<rparr>)
      | DeleteObjectCommand k \<Rightarrow> (Inr None, w\<lparr>objects := (objects w)(k := None)\<rparr>)
      | HeadObjectCommand k \<Rightarrow>
          (case objects w k of
             None \<Rightarrow> (Inl (Err ''NotFound'' ''UnknownError''), w)
           | Some obj \<Rightarrow> (Inr None, w))
      | GetObjectCommand k \<Rightarrow>
          (case objects w k of
             None \<Rightarrow> (Inl (Err ''NoSuchKey'' ''The specified key does not exist.''), w)
           | Some obj \<Rightarrow> (Inr (Some (body obj)), w)))"

definition s3_send :: "s3_command \<Rightarrow> (string option, 'r) io" where
  "s3_send cmd w =
     (let w1 = w\<lparr>sent := sent w @ [cmd], s3_faults := tl (s3_faults w)\<rparr>
      in case s3_faults w of
           Some err # rest \<Rightarrow> (Inl err, w1)
         | _ \<Rightarrow> s3_run cmd w1)"

section \<open>s3Service.js\<close>

definition uploadFile :: "env \<Rightarrow> string \<Rightarrow> string \<Rightarrow> string option \<Rightarrow> (string, 'r) io" where
  "uploadFile e fileBuffer key ctype =
     try_catch
       (await (s3_send (PutObjectCommand key \<lparr>body = fileBuffer, contentType = ctype\<rparr>))
          (\<lambda>_. return (''s3://'' @ S3_BUCKET e @ ''/'' @ key)))
       (\<lambda>error.
          await (logger_error (''S3 upload error: '' @ err_message error))
            (\<lambda>_. throw (new_Error (''Failed to upload file to S3: '' @ err_message error))))"

definition deleteFile :: "string \<Rightarrow> (unit, 'r) io" where
  "deleteFile key =
     try_catch
       (await (s3_send (DeleteObjectCommand key)) (\<lambda>_. return ()))
       (\<lambda>error.
          await (logger_error (''S3 delete error: '' @ err_message error))
            (\<lambda>_. throw (new_Error (''Failed to delete file from S3: '' @ err_message error))))"

definition fileExists :: "string \<Rightarrow> (bool, 'r) io" where
  "fileExists key =
     try_catch
       (await (s3_send (HeadObjectCommand key)) (\<lambda>_. return True))
       (\<lambda>error. if err_name error = ''NotFound'' then return False else throw error)"

subsection \<open>Key derivation\<close>

text \<open>
  \<open>blogId\<close> is a number in the id-keyed controller and the slug in the slug-keyed one;
  a template literal renders a number in decimal.
\<close>

datatype blog_ref = RefId int | RefSlug string

fun digit_char :: "nat \<Rightarrow> char" where
  "digit_char n = char_of (48 + n)"

function decimal :: "nat \<Rightarrow> string" where
  "decimal n = (if n < 10 then [digit_char n] else decimal (n div 10) @ [digit_char (n mod 10)])"
  by pat_completeness auto
termination
  by (relation "measure id") auto

declare decimal.simps [simp del]

fun ref_text :: "blog_ref \<Rightarrow> string" where
  "ref_text (RefId i) = (if i < 0 then CHR ''-'' # decimal (nat (- i)) else decimal (nat i))"
| "ref_text (RefSlug s) = s"

text \<open>
  \<open>uploadBlogContent(contentBuffer, blogId, originalFilename, contentType)\<close>: the key is the
  record's prefix followed by the third argument as it is.
\<close>

definition content_key :: "blog_ref \<Rightarrow> string \<Rightarrow> string" where
  "content_key blogId originalFilename = ''blogs/'' @ ref_text blogId @ ''/'' @ originalFilename"

definition uploadBlogContent ::
    "env \<Rightarrow> string \<Rightarrow> blog_ref \<Rightarrow> string \<Rightarrow> string option \<Rightarrow> (string, 'r) io" where
  "uploadBlogContent e contentBuffer blogId originalFilename ctype =
     uploadFile e contentBuffer (content_key blogId originalFilename) ctype"

text \<open>
  \<open>uploadBlogCoverImage\<close>: \<open>cover\<close> followed by \<open>path.extname(originalName)\<close>. The
  function \<open>path.extname\<close> belongs to the platform, not to this repository: it is the
  parameter \<open>extname\<close>.
\<close>

definition cover_key :: "(string \<Rightarrow> string) \<Rightarrow> blog_ref \<Rightarrow> string \<Rightarrow> string" where
  "cover_key extname blogId originalName =
     ''blogs/'' @ ref_text blogId @ ''/cover'' @ extname originalName"

definition uploadBlogCoverImage ::
    "env \<Rightarrow> (string \<Rightarrow> string) \<Rightarrow> string \<Rightarrow> blog_ref \<Rightarrow> string \<Rightarrow> string option
       \<Rightarrow> (string, 'r) io" where
  "uploadBlogCoverImage e extname imageBuffer blogId originalName mimeType =
     uploadFile e imageBuffer (cover_key extname blogId originalName) mimeType"

text \<open>
  An instance of \<open>path.extname\<close> for running the model on concrete inputs, after the
  POSIX implementation of Node.js: the extension is the part of the last path component
  from its last dot on, and it is empty when that component has no dot, starts with its
  only dot, or is \<open>..\<close>.
\<close>

definition posix_extname :: "string \<Rightarrow> string" where
  "posix_extname path =
     (let trimmed = rev (dropWhile (\<lambda>c. c = CHR ''/'') (rev path));
          comp = rev (takeWhile (\<lambda>c. c \<noteq> CHR ''/'') (rev trimmed));
          ext = rev (takeWhile (\<lambda>c. c \<noteq> CHR ''.'') (rev comp))
      in if CHR ''.'' \<notin> set comp then []
         else if length comp = Suc (length ext) then []
         else if comp = ''..'' then []
         else CHR ''.'' # ext)"

subsection \<open>Deleting and replacing\<close>

text \<open>A synchronous call inside an asynchronous function: its exception rejects the promise.\<close>

definition lift :: "js_error + 'a \<Rightarrow> ('a, 'r) io" where
  "lift r = (case r of Inl err \<Rightarrow> throw err | Inr v \<Rightarrow> return v)"

text \<open>
  \<open>if (key && await fileExists(key)) { await deleteFile(key); }\<close>, the step shared by the
  replace functions and by \<open>deleteBlogFiles\<close>. A key is truthy when it is a non-empty
  string.
\<close>

definition delete_if_exists :: "string option \<Rightarrow> (unit, 'r) io" where
  "delete_if_exists key =
     (case key of
        None \<Rightarrow> return ()
      | Some k \<Rightarrow>
          if k = [] then return ()
          else await (fileExists k) (\<lambda>found. if found then deleteFile k else return ()))"

definition replaceBlogContent ::
    "env \<Rightarrow> js_value \<Rightarrow> string \<Rightarrow> blog_ref \<Rightarrow> string \<Rightarrow> string option \<Rightarrow> (string, 'r) io" where
  "replaceBlogContent e oldUrl newContentBuffer blogId originalFilename ctype =
     await (lift (extractKeyFromUrl e oldUrl))
       (\<lambda>oldKey. await (delete_if_exists oldKey)
          (\<lambda>_. uploadBlogContent e newContentBuffer blogId originalFilename ctype))"

definition replaceBlogCoverImage ::
    "env \<Rightarrow> (string \<Rightarrow> string) \<Rightarrow> js_value \<Rightarrow> string \<Rightarrow> blog_ref \<Rightarrow> string \<Rightarrow> string option
       \<Rightarrow> (string, 'r) io" where
  "replaceBlogCoverImage e extname oldUrl newImageBuffer blogId originalName mimeType =
     await (lift (extractKeyFromUrl e oldUrl))
       (\<lambda>oldKey. await (delete_if_exists oldKey)
          (\<lambda>_. uploadBlogCoverImage e extname newImageBuffer blogId originalName mimeType))"

text \<open>The \<open>for (const key of keys)\<close> loops of \<open>deleteBlogFiles\<close>.\<close>

fun delete_each :: "string list \<Rightarrow> 'r world \<Rightarrow> (js_error + unit) \<times> 'r world" where
  "delete_each [] w = (Inr (), w)"
| "delete_each (key # keys) w =
     (case fileExists key w of
        (Inl err, w1) \<Rightarrow> (Inl err, w1)
      | (Inr found, w1) \<Rightarrow>
          if found then
            (case deleteFile key w1 of
               (Inl err, w2) \<Rightarrow> (Inl err, w2)
             | (Inr u, w2) \<Rightarrow> delete_each keys w2)
          else delete_each keys w1)"

definition legacy_content_keys :: "blog_ref \<Rightarrow> string list" where
  "legacy_content_keys blogId =
     [''blogs/'' @ ref_text blogId @ ''/content.html'',
      ''blogs/'' @ ref_text blogId @ ''/content.md'',
      ''blogs/'' @ ref_text blogId @ ''/content.docx'']"

definition imageExtensions :: "string list" where
  "imageExtensions = [''.jpg'', ''.jpeg'', ''.png'', ''.webp'', ''.gif'', ''.svg'']"

definition legacy_cover_keys :: "blog_ref \<Rightarrow> string list" where
  "legacy_cover_keys blogId =
     map (\<lambda>ext. ''blogs/'' @ ref_text blogId @ ''/cover'' @ ext) imageExtensions"

text \<open>
  \<open>deleteBlogFiles(blogId, contentUrl = null, coverImageUrl = null)\<close>: the body of its
  \<open>try\<close>, then the function with its \<open>catch\<close>, which logs and does not rethrow. A caller
  that leaves the two locators out passes \<open>JNull\<close>.
\<close>

definition deleteBlogFiles_try :: "env \<Rightarrow> blog_ref \<Rightarrow> js_value \<Rightarrow> js_value \<Rightarrow> (unit, 'r) io" where
  "deleteBlogFiles_try e blogId contentUrl coverImageUrl =
     await
       (if truthy contentUrl then
          await (lift (extractKeyFromUrl e contentUrl)) delete_if_exists
        else delete_each (legacy_content_keys blogId))
       (\<lambda>_. if truthy coverImageUrl then
               await (lift (extractKeyFromUrl e coverImageUrl)) delete_if_exists
             else delete_each (legacy_cover_keys blogId))"

definition deleteBlogFiles :: "env \<Rightarrow> blog_ref \<Rightarrow> js_value \<Rightarrow> js_value \<Rightarrow> (unit, 'r) io" where
  "deleteBlogFiles e blogId contentUrl coverImageUrl =
     try_catch (deleteBlogFiles_try e blogId contentUrl coverImageUrl)
       (\<lambda>error. logger_error (''Error deleting blog files for ID '' @ ref_text blogId @ '': ''
                                @ err_message error))"

section \<open>presignedUrl.js\<close>

text \<open>
  \<open>getSignedUrl\<close> of the AWS SDK is the parameter \<open>sign\<close>: from the bucket, the
  \<open>Key\<close> of the \<open>GetObjectCommand\<close> and the lifetime in seconds to a URL, or an
  exception. \<open>expiresIn\<close> is \<open>None\<close> when the caller leaves it out.
\<close>

type_synonym signer = "string \<Rightarrow> js_value \<Rightarrow> int \<Rightarrow> js_error + string"

definition generatePresignedUrl_try :: "env \<Rightarrow> signer \<Rightarrow> js_value \<Rightarrow> int \<Rightarrow> js_error + string" where
  "generatePresignedUrl_try e sign s3Url expiresIn =
     (if \<not> truthy s3Url then Inl (new_Error ''S3 URL is required'')
      else (case extractS3Key e s3Url of
              Inl err \<Rightarrow> Inl err
            | Inr extracted \<Rightarrow>
                (let key = (case extracted of
                              None \<Rightarrow> s3Url
                            | Some k \<Rightarrow> if k \<noteq> [] then JStr k else s3Url)
                 in if \<not> truthy key then Inl (new_Error ''Could not extract S3 key from URL'')
                    else sign (S3_BUCKET e) key expiresIn)))"

definition generatePresignedUrl :: "env \<Rightarrow> signer \<Rightarrow> js_value \<Rightarrow> int option \<Rightarrow> js_error + string" where
  "generatePresignedUrl e sign s3Url expiresIn =
     (case generatePresignedUrl_try e sign s3Url
             (case expiresIn of None \<Rightarrow> 3600 | Some n \<Rightarrow> n) of
        Inr presignedUrl \<Rightarrow> Inr presignedUrl
      | Inl error \<Rightarrow>
          Inl (new_Error (''Failed to generate presigned URL: '' @ err_message error)))"

section \<open>The table\<close>

text \<open>
  A row of the \<open>blogs\<close> table as the id-keyed controller (blogController.js) uses it, and
  its extension by the columns that only the slug-keyed controller reads and writes.
  Timestamps are numbers; a nullable column is an \<open>option\<close>. The column \<open>id\<close> is
  \<open>blog_id\<close> here.
\<close>

record blog =
  blog_id :: int
  title :: string
  tags :: "string list"
  contentUrl :: string
  coverImageUrl :: "string option"
  readTime :: "int option"
  views :: int
  likes :: int
  createdAt :: int
  updatedAt :: int
  deletedAt :: "int option"

record slug_blog = blog +
  slug :: string
  authorId :: "int option"
  summary :: "string option"
  status :: string

subsection \<open>The Prisma client\<close>

text \<open>
  Every call to the client consumes the head of \<open>db_faults\<close>. \<open>findUnique\<close> gives the
  row or \<open>null\<close>; \<open>update\<close> and \<open>delete\<close> fail when no row has the identifier;
  \<open>update\<close> stamps \<open>updatedAt\<close>; \<open>create\<close> takes the next identifier.
\<close>

definition prisma :: "('r world \<Rightarrow> (js_error + 'a) \<times> 'r world) \<Rightarrow> ('a, 'r) io" where
  "prisma query w =
     (let w1 = w\<lparr>db_faults := tl (db_faults w)\<rparr>
      in case db_faults w of
           Some err # rest \<Rightarrow> (Inl err, w1)
         | _ \<Rightarrow> query w1)"

definition record_not_found :: js_error where
  "record_not_found = Err ''PrismaClientKnownRequestError'' ''Record not found.''"

definition unique_violation :: js_error where
  "unique_violation =
     Err ''PrismaClientKnownRequestError'' ''Unique constraint failed on the fields: (`slug`)''"

definition findUnique_id :: "int \<Rightarrow> ('a blog_scheme option, 'a blog_scheme) io" where
  "findUnique_id i = prisma (\<lambda>w. (Inr (find (\<lambda>b. blog_id b = i) (rows w)), w))"

definition findUnique_slug :: "string \<Rightarrow> (slug_blog option, slug_blog) io" where
  "findUnique_slug s = prisma (\<lambda>w. (Inr (find (\<lambda>b. slug b = s) (rows w)), w))"

definition blog_update ::
    "int \<Rightarrow> ('a blog_scheme \<Rightarrow> 'a blog_scheme) \<Rightarrow> ('a blog_scheme, 'a blog_scheme) io" where
  "blog_update i change =
     prisma (\<lambda>w. case find (\<lambda>b. blog_id b = i) (rows w) of
                    None \<Rightarrow> (Inl record_not_found, w)
                  | Some b \<Rightarrow>
                      (let b' = (change b)\<lparr>updatedAt := clock w\<rparr>
                       in (Inr b',
                           w\<lparr>rows := map (\<lambda>r. if blog_id r = i then b' else r) (rows w)\<rparr>)))"

definition blog_delete :: "int \<Rightarrow> ('a blog_scheme, 'a blog_scheme) io" where
  "blog_delete i =
     prisma (\<lambda>w. case find (\<lambda>b. blog_id b = i) (rows w) of
                    None \<Rightarrow> (Inl record_not_found, w)
                  | Some b \<Rightarrow> (Inr b, w\<lparr>rows := filter (\<lambda>r. blog_id r \<noteq> i) (rows w)\<rparr>))"

definition blog_create :: "(int \<Rightarrow> int \<Rightarrow> blog) \<Rightarrow> (blog, blog) io" where
  "blog_create build =
     prisma (\<lambda>w. let b = build (next_id w) (clock w)
                  in (Inr b, w\<lparr>rows := rows w @ [b], next_id := next_id w + 1\<rparr>))"

definition slug_blog_create :: "(int \<Rightarrow> int \<Rightarrow> slug_blog) \<Rightarrow> (slug_blog, slug_blog) io" where
  "slug_blog_create build =
     prisma (\<lambda>w. let b = build (next_id w) (clock w)
                  in if list_ex (\<lambda>r. slug r = slug b) (rows w) then (Inl unique_violation, w)
                     else (Inr b, w\<lparr>rows := rows w @ [b], next_id := next_id w + 1\<rparr>))"

text \<open>
  \<open>findMany({ where, orderBy: [{ createdAt: 'desc' }], skip, take })\<close> and
  \<open>count({ where })\<close>, the \<open>where\<close> object being a predicate on rows.
\<close>

definition findMany ::
    "('a blog_scheme \<Rightarrow> bool) \<Rightarrow> nat \<Rightarrow> nat \<Rightarrow> ('a blog_scheme list, 'a blog_scheme) io" where
  "findMany wh skip tk =
     prisma (\<lambda>w. (Inr (take tk (drop skip
                      (sort_key (\<lambda>b. - createdAt b) (filter wh (rows w))))), w))"

definition count_rows :: "('a blog_scheme \<Rightarrow> bool) \<Rightarrow> (nat, 'a blog_scheme) io" where
  "count_rows wh = prisma (\<lambda>w. (Inr (length (filter wh (rows w))), w))"

section \<open>What the platform provides\<close>

text \<open>
  Functions of Node.js and of third-party packages that the controllers call:
  \<open>path.extname\<close>, \<open>DOMPurify.sanitize\<close> (which may throw), \<open>getSignedUrl\<close>, and the
  database's case-insensitive \<open>contains\<close> test (text, then the substring sought).
\<close>

record platform =
  path_extname :: "string \<Rightarrow> string"
  DOMPurify_sanitize :: "string \<Rightarrow> js_error + string"
  getSignedUrl :: signer
  contains_insensitive :: "string \<Rightarrow> string \<Rightarrow> bool"

section \<open>htmlSanitizer.js\<close>

definition js_whitespace :: "char \<Rightarrow> bool" where
  "js_whitespace c = (c \<in> {CHR 0x09, CHR 0x0A, CHR 0x0B, CHR 0x0C, CHR 0x0D, CHR 0x20, CHR 0xA0})"

definition js_trim :: "string \<Rightarrow> string" where
  "js_trim s = rev (dropWhile js_whitespace (rev (dropWhile js_whitespace s)))"

definition sanitizeHTML :: "platform \<Rightarrow> string \<Rightarrow> js_error + string" where
  "sanitizeHTML px htmlContent =
     (if htmlContent = [] \<or> js_trim htmlContent = [] then Inr []
      else (case DOMPurify_sanitize px htmlContent of
              Inr sanitized \<Rightarrow> Inr sanitized
            | Inl error \<Rightarrow>
                Inl (new_Error (''Failed to sanitize HTML: '' @ err_message error))))"

definition sanitizeHTMLToBuffer :: "platform \<Rightarrow> string \<Rightarrow> js_error + string" where
  "sanitizeHTMLToBuffer px htmlContent = sanitizeHTML px htmlContent"

section \<open>Requests and responses\<close>

text \<open>
  The uniform envelope \<open>{ success, message, data, error }\<close> with its HTTP status. The
  \<open>error\<close> member carries the exception's message in development mode only.
\<close>

record 'd response =
  status_code :: nat
  success :: bool
  message :: "string option"
  data :: "'d option"
  error_detail :: "string option"

definition ok_response :: "nat \<Rightarrow> string option \<Rightarrow> 'd option \<Rightarrow> 'd response" where
  "ok_response code msg d =
     \<lparr>status_code = code, success = True, message = msg, data = d, error_detail = None\<rparr>"

definition refusal :: "nat \<Rightarrow> string \<Rightarrow> 'd response" where
  "refusal code msg =
     \<lparr>status_code = code, success = False, message = Some msg, data = None,
      error_detail = None\<rparr>"

text \<open>
  A controller is a \<open>try\<close> block that answers, and a \<open>catch\<close> that logs the exception
  and answers 500.
\<close>

definition controller ::
    "('d response, 'r) io \<Rightarrow> (js_error \<Rightarrow> 'r world \<Rightarrow> 'd response \<times> 'r world)
       \<Rightarrow> 'r world \<Rightarrow> 'd response \<times> 'r world" where
  "controller block on_error w =
     (case block w of
        (Inr res, w') \<Rightarrow> (res, w')
      | (Inl error, w') \<Rightarrow> on_error error w')"

definition answer_500 ::
    "env \<Rightarrow> string \<Rightarrow> string \<Rightarrow> js_error \<Rightarrow> 'r world \<Rightarrow> 'd response \<times> 'r world" where
  "answer_500 e log_prefix msg error w =
     (\<lparr>status_code = 500, success = False, message = Some msg, data = None,
       error_detail = (if NODE_ENV e = Some ''development'' then Some (err_message error)
                       else None)\<rparr>,
      w\<lparr>error_log := error_log w @ [log_prefix @ err_message error]\<rparr>)"

text \<open>
  An uploaded file as multer presents it, and \<open>req.files\<close>. Body fields are modelled
  after the validation middleware and the body parser: a number is the value that
  \<open>parseInt\<close> reads, \<open>tags\<close> is the decoded array, an absent field is \<open>None\<close>.
\<close>

record upload =
  originalname :: string
  mimetype :: string
  buffer :: string

record upload_files =
  content :: "upload option"
  cover :: "upload option"

record create_request =
  cr_title :: string
  cr_tags :: "string list"
  cr_readTime :: "int option"
  cr_content :: upload
  cr_cover :: "upload option"

record slug_create_request = create_request +
  cr_slug :: string
  cr_authorId :: "int option"
  cr_summary :: "string option"
  cr_status :: "string option"

record update_request =
  ur_id :: int
  ur_title :: "string option"
  ur_tags :: "string list option"
  ur_readTime :: "int option"
  ur_views :: "int option"
  ur_likes :: "int option"
  ur_files :: "upload_files option"

text \<open>The object \<open>updateData\<close>: a member that was never assigned is \<open>None\<close>.\<close>

record update_data =
  ud_title :: "string option"
  ud_readTime :: "int option option"
  ud_views :: "int option"
  ud_likes :: "int option"
  ud_tags :: "string list option"
  ud_contentUrl :: "string option"
  ud_coverImageUrl :: "string option"

definition apply_update_data :: "update_data \<Rightarrow> blog \<Rightarrow> blog" where
  "apply_update_data d b =
     b\<lparr>title := (case ud_title d of None \<Rightarrow> title b | Some t \<Rightarrow> t),
       readTime := (case ud_readTime d of None \<Rightarrow> readTime b | Some r \<Rightarrow> r),
       views := (case ud_views d of None \<Rightarrow> views b | Some v \<Rightarrow> v),
       likes := (case ud_likes d of None \<Rightarrow> likes b | Some l \<Rightarrow> l),
       tags := (case ud_tags d of None \<Rightarrow> tags b | Some ts \<Rightarrow> ts),
       contentUrl := (case ud_contentUrl d of None \<Rightarrow> contentUrl b | Some u \<Rightarrow> u),
       coverImageUrl := (case ud_coverImageUrl d of None \<Rightarrow> coverImageUrl b
                         | Some u \<Rightarrow> Some u)\<rparr>"

definition nullable :: "string option \<Rightarrow> js_value" where
  "nullable v = (case v of None \<Rightarrow> JNull | Some s \<Rightarrow> JStr s)"

section \<open>blogController.js (records addressed by id)\<close>

subsection \<open>\<open>createBlog\<close>\<close>

text \<open>
  The call \<open>uploadBlogContent(sanitizedBuffer, blog.id, contentFile.mimetype)\<close> has three
  arguments: the MIME type arrives as \<open>originalFilename\<close> and \<open>contentType\<close> is
  \<open>undefined\<close>. The structure check after sanitizing only writes warnings and is left out.
\<close>

definition createBlog_try :: "env \<Rightarrow> platform \<Rightarrow> create_request \<Rightarrow> (blog response, blog) io" where
  "createBlog_try e px req =
     await (blog_create (\<lambda>i now.
              \<lparr>blog_id = i, title = cr_title req, tags = cr_tags req,
               contentUrl = ''placeholder'', coverImageUrl = None,
               readTime = cr_readTime req, views = 0, likes = 0,
               createdAt = now, updatedAt = now, deletedAt = None\<rparr>))
       (\<lambda>blog.
     await (lift (sanitizeHTMLToBuffer px (buffer (cr_content req))))
       (\<lambda>sanitizedBuffer.
     await (uploadBlogContent e sanitizedBuffer (RefId (blog_id blog))
              (mimetype (cr_content req)) None)
       (\<lambda>newContentUrl.
     await (case cr_cover req of
              None \<Rightarrow> return None
            | Some coverFile \<Rightarrow>
                await (uploadBlogCoverImage e (path_extname px) (buffer coverFile)
                         (RefId (blog_id blog)) (originalname coverFile)
                         (Some (mimetype coverFile)))
                  (\<lambda>u. return (Some u)))
       (\<lambda>newCoverUrl.
     await (blog_update (blog_id blog)
              (\<lambda>b. b\<lparr>contentUrl := newContentUrl, coverImageUrl := newCoverUrl\<rparr>))
       (\<lambda>updatedBlog.
     return (ok_response 201 (Some ''Blog created successfully'') (Some updatedBlog)))))))"

definition createBlog ::
    "env \<Rightarrow> platform \<Rightarrow> create_request \<Rightarrow> blog world \<Rightarrow> blog response \<times> blog world" where
  "createBlog e px req =
     controller (createBlog_try e px req)
       (answer_500 e ''Create blog error: '' ''Failed to create blog'')"

subsection \<open>\<open>updateBlog\<close>\<close>

definition updateData_of_body :: "update_request \<Rightarrow> update_data" where
  "updateData_of_body req =
     \<lparr>ud_title = (case ur_title req of None \<Rightarrow> None
                  | Some t \<Rightarrow> if t \<noteq> [] then Some t else None),
      ud_readTime = (case ur_readTime req of None \<Rightarrow> None | Some n \<Rightarrow> Some (Some n)),
      ud_views = ur_views req,
      ud_likes = ur_likes req,
      ud_tags = ur_tags req,
      ud_contentUrl = None,
      ud_coverImageUrl = None\<rparr>"

text \<open>
  The two file slots. As in \<open>createBlog\<close>, \<open>replaceBlogContent\<close> is called with four
  arguments where it has five parameters: the MIME type arrives as \<open>originalFilename\<close>.
\<close>

definition replace_content_slot ::
    "env \<Rightarrow> platform \<Rightarrow> blog \<Rightarrow> int \<Rightarrow> upload option \<Rightarrow> update_data \<Rightarrow> (update_data, blog) io" where
  "replace_content_slot e px existingBlog blogId contentFile updateData =
     (case contentFile of
        None \<Rightarrow> return updateData
      | Some file \<Rightarrow>
          await (lift (sanitizeHTMLToBuffer px (buffer file)))
            (\<lambda>sanitizedBuffer.
          await (replaceBlogContent e (JStr (contentUrl existingBlog)) sanitizedBuffer
                   (RefId blogId) (mimetype file) None)
            (\<lambda>newContentUrl. return (updateData\<lparr>ud_contentUrl := Some newContentUrl\<rparr>))))"

definition replace_cover_slot ::
    "env \<Rightarrow> platform \<Rightarrow> blog \<Rightarrow> int \<Rightarrow> upload option \<Rightarrow> update_data \<Rightarrow> (update_data, blog) io" where
  "replace_cover_slot e px existingBlog blogId coverFile updateData =
     (case coverFile of
        None \<Rightarrow> return updateData
      | Some file \<Rightarrow>
          await (replaceBlogCoverImage e (path_extname px) (nullable (coverImageUrl existingBlog))
                   (buffer file) (RefId blogId) (originalname file) (Some (mimetype file)))
            (\<lambda>newCoverUrl. return (updateData\<lparr>ud_coverImageUrl := Some newCoverUrl\<rparr>)))"

definition updateBlog_try :: "env \<Rightarrow> platform \<Rightarrow> update_request \<Rightarrow> (blog response, blog) io" where
  "updateBlog_try e px req =
     await (findUnique_id (ur_id req))
       (\<lambda>found.
          case found of
            None \<Rightarrow> return (refusal 404 ''Blog not found'')
          | Some existingBlog \<Rightarrow>
              if deletedAt existingBlog \<noteq> None then return (refusal 404 ''Blog not found'')
              else
                await (case ur_files req of
                         None \<Rightarrow> return (updateData_of_body req)
                       | Some files \<Rightarrow>
                           await (replace_content_slot e px existingBlog (ur_id req)
                                    (content files) (updateData_of_body req))
                             (replace_cover_slot e px existingBlog (ur_id req) (cover files)))
                  (\<lambda>updateData.
                await (blog_update (ur_id req) (apply_update_data updateData))
                  (\<lambda>updatedBlog.
                return (ok_response 200 (Some ''Blog updated successfully'')
                          (Some updatedBlog)))))"

definition updateBlog ::
    "env \<Rightarrow> platform \<Rightarrow> update_request \<Rightarrow> blog world \<Rightarrow> blog response \<times> blog world" where
  "updateBlog e px req =
     controller (updateBlog_try e px req)
       (answer_500 e ''Update blog error: '' ''Failed to update blog'')"

subsection \<open>\<open>permanentDeleteBlog\<close>\<close>

text \<open>\<open>deleteBlogFiles(blogId)\<close>: both locators take their default, \<open>null\<close>.\<close>

definition permanentDeleteBlog_try :: "env \<Rightarrow> int \<Rightarrow> (blog response, blog) io" where
  "permanentDeleteBlog_try e blogId =
     await (findUnique_id blogId)
       (\<lambda>found.
          case found of
            None \<Rightarrow> return (refusal 404 ''Blog not found'')
          | Some blog \<Rightarrow>
              await (deleteBlogFiles e (RefId blogId) JNull JNull)
                (\<lambda>_. await (blog_delete blogId)
                   (\<lambda>_. return (ok_response 200 (Some ''Blog permanently deleted'') None))))"

definition permanentDeleteBlog :: "env \<Rightarrow> int \<Rightarrow> blog world \<Rightarrow> blog response \<times> blog world" where
  "permanentDeleteBlog e blogId =
     controller (permanentDeleteBlog_try e blogId)
       (answer_500 e ''Permanent delete blog error: '' ''Failed to permanently delete blog'')"

subsection \<open>\<open>getBlogContent\<close>\<close>

text \<open>
  \<open>prisma.blog.update({ ... views: { increment: 1 } }).catch(err => logger.error(...))\<close>
  without \<open>await\<close>: the update is issued and the handler goes on with the row it has
  read. The model runs the update at the place where it is issued; when it completes
  does not change what the handler computes, since the handler does not read the table
  again.
\<close>

definition increment_views :: "int \<Rightarrow> (unit, 'a blog_scheme) io" where
  "increment_views i =
     try_catch
       (await (blog_update i (\<lambda>b. b\<lparr>views := views b + 1\<rparr>)) (\<lambda>_. return ()))
       (\<lambda>err. logger_error (''Failed to increment views: '' @ err_message err))"

record content_payload =
  cp_id :: int
  cp_title :: string
  cp_tags :: "string list"
  cp_coverImageUrl :: "string option"
  cp_readTime :: "int option"
  cp_views :: int
  cp_likes :: int
  cp_createdAt :: int
  cp_updatedAt :: int
  cp_content :: string

text \<open>A key, or a fetched body, is truthy when it is a non-empty string.\<close>

definition key_truthy :: "string option \<Rightarrow> bool" where
  "key_truthy k = (case k of None \<Rightarrow> False | Some s \<Rightarrow> s \<noteq> [])"

definition key_text :: "string option \<Rightarrow> string" where
  "key_text k = (case k of None \<Rightarrow> [] | Some s \<Rightarrow> s)"

definition presign_cover :: "env \<Rightarrow> platform \<Rightarrow> string option \<Rightarrow> (string option, 'r) io" where
  "presign_cover e px coverUrl =
     (case coverUrl of
        None \<Rightarrow> return None
      | Some u \<Rightarrow>
          if u = [] then return (Some u)
          else await (lift (extractS3Key e (JStr u)))
                 (\<lambda>coverKey.
                    case coverKey of
                      None \<Rightarrow> return (Some u)
                    | Some k \<Rightarrow>
                        if k = [] then return (Some u)
                        else await (lift (generatePresignedUrl e (getSignedUrl px) (JStr k)
                                            (Some 3600)))
                               (\<lambda>signed. return (Some signed))))"

text \<open>
  The handler from \<open>// Fetch content from S3\<close> on, for the row that was read: the key of
  the content locator, the fetch, the signed cover URL, the payload.
\<close>

definition fetch_content :: "env \<Rightarrow> platform \<Rightarrow> blog \<Rightarrow> (content_payload response, blog) io" where
  "fetch_content e px blog =
     await (lift (extractS3Key e (JStr (contentUrl blog))))
       (\<lambda>s3Key.
          if \<not> key_truthy s3Key then
            return (refusal 500 ''Invalid content URL format'')
          else
            await (s3_send (GetObjectCommand (key_text s3Key)))
              (\<lambda>s3Response.
            await (presign_cover e px (coverImageUrl blog))
              (\<lambda>presignedCoverUrl.
            return (ok_response 200 None
              (Some \<lparr>cp_id = blog_id blog, cp_title = title blog, cp_tags = tags blog,
                     cp_coverImageUrl = presignedCoverUrl,
                     cp_readTime = readTime blog,
                     cp_views = views blog + 1,
                     cp_likes = likes blog,
                     cp_createdAt = createdAt blog, cp_updatedAt = updatedAt blog,
                     cp_content = key_text s3Response\<rparr>)))))"

definition getBlogContent_try ::
    "env \<Rightarrow> platform \<Rightarrow> int \<Rightarrow> (content_payload response, blog) io" where
  "getBlogContent_try e px blogId =
     await (findUnique_id blogId)
       (\<lambda>found.
          case found of
            None \<Rightarrow> return (refusal 404 ''Blog not found'')
          | Some blog \<Rightarrow>
              if deletedAt blog \<noteq> None then return (refusal 404 ''Blog not found'')
              else await (increment_views (blog_id blog)) (\<lambda>_. fetch_content e px blog))"

definition getBlogContent ::
    "env \<Rightarrow> platform \<Rightarrow> int \<Rightarrow> blog world \<Rightarrow> content_payload response \<times> blog world" where
  "getBlogContent e px blogId =
     controller (getBlogContent_try e px blogId)
       (answer_500 e ''Get blog content error: '' ''Failed to fetch blog content'')"

subsection \<open>\<open>getBlogs\<close>\<close>

text \<open>
  The query string. \<open>parseInt(req.query.page) || 1\<close>: an absent or zero value gives the
  default. \<open>tags\<close> is a comma-separated string or an array. The two queries of
  \<open>Promise.all\<close> only read the table, so they are run one after the other; the
  \<open>select\<close> list is a projection of the columns, and the model returns the rows.
\<close>

datatype tags_param = TagsAbsent | TagsString string | TagsArray "string list"

record list_query =
  q_page :: "nat option"
  q_limit :: "nat option"
  q_search :: "string option"
  q_status :: "string option"
  q_tags :: tags_param

record pagination =
  total :: nat
  page :: nat
  limit :: nat
  totalPages :: nat
  hasMore :: bool

definition or_default :: "nat option \<Rightarrow> nat \<Rightarrow> nat" where
  "or_default v d = (case v of None \<Rightarrow> d | Some n \<Rightarrow> if n = 0 then d else n)"

fun split_comma :: "string \<Rightarrow> string list" where
  "split_comma [] = [[]]"
| "split_comma (c # cs) =
     (if c = CHR '','' then [] # split_comma cs
      else (case split_comma cs of
              [] \<Rightarrow> [[c]]
            | piece # pieces \<Rightarrow> (c # piece) # pieces))"

definition parse_tags :: "tags_param \<Rightarrow> string list" where
  "parse_tags t =
     (case t of
        TagsAbsent \<Rightarrow> []
      | TagsString s \<Rightarrow>
          if s \<noteq> [] then filter (\<lambda>tag. tag \<noteq> []) (map js_trim (split_comma s)) else []
      | TagsArray ts \<Rightarrow> ts)"

definition hasSome :: "string list \<Rightarrow> string list \<Rightarrow> bool" where
  "hasSome wanted present = list_ex (\<lambda>t. t \<in> set present) wanted"

text \<open>The \<open>where\<close> object of the id-keyed \<open>getBlogs\<close>: it has no \<open>status\<close> member.\<close>

definition getBlogs_where :: "platform \<Rightarrow> list_query \<Rightarrow> 'a blog_scheme \<Rightarrow> bool" where
  "getBlogs_where px q b =
     (deletedAt b = None
      \<and> (parse_tags (q_tags q) = [] \<or> hasSome (parse_tags (q_tags q)) (tags b))
      \<and> (\<not> key_truthy (q_search q)
          \<or> contains_insensitive px (title b) (key_text (q_search q))))"

definition page_of :: "list_query \<Rightarrow> nat \<Rightarrow> pagination" where
  "page_of q n =
     (let pg = or_default (q_page q) 1; lim = or_default (q_limit q) 20;
          pages = (n + lim - 1) div lim
      in \<lparr>total = n, page = pg, limit = lim, totalPages = pages, hasMore = (pg < pages)\<rparr>)"

definition list_blogs ::
    "env \<Rightarrow> ('a blog_scheme \<Rightarrow> bool) \<Rightarrow> list_query
       \<Rightarrow> 'a blog_scheme world \<Rightarrow> ('a blog_scheme list \<times> pagination) response \<times> 'a blog_scheme world" where
  "list_blogs e wh q =
     controller
       (await (findMany wh ((or_default (q_page q) 1 - 1) * or_default (q_limit q) 20)
                 (or_default (q_limit q) 20))
          (\<lambda>blogs. await (count_rows wh)
             (\<lambda>n. return (ok_response 200 None (Some (blogs, page_of q n))))))
       (answer_500 e ''Get blogs error: '' ''Failed to fetch blogs'')"

definition getBlogs ::
    "env \<Rightarrow> platform \<Rightarrow> list_query \<Rightarrow> blog world \<Rightarrow> (blog list \<times> pagination) response \<times> blog world" where
  "getBlogs e px q = list_blogs e (getBlogs_where px q) q"

section \<open>The controller that addresses records by slug\<close>

subsection \<open>\<open>getBlogs\<close>\<close>

text \<open>\<open>const status = req.query.status || 'published'\<close>, and \<open>where = { deletedAt: null, status }\<close>.\<close>

definition status_filter :: "list_query \<Rightarrow> string" where
  "status_filter q = (if key_truthy (q_status q) then key_text (q_status q) else ''published'')"

definition getBlogs_slug_where :: "platform \<Rightarrow> list_query \<Rightarrow> slug_blog \<Rightarrow> bool" where
  "getBlogs_slug_where px q b =
     (deletedAt b = None
      \<and> status b = status_filter q
      \<and> (parse_tags (q_tags q) = [] \<or> hasSome (parse_tags (q_tags q)) (tags b))
      \<and> (\<not> key_truthy (q_search q)
          \<or> contains_insensitive px (title b) (key_text (q_search q))
          \<or> (case summary b of
                None \<Rightarrow> False
              | Some text \<Rightarrow> contains_insensitive px text (key_text (q_search q)))))"

definition getBlogs_slug ::
    "env \<Rightarrow> platform \<Rightarrow> list_query
       \<Rightarrow> slug_blog world \<Rightarrow> (slug_blog list \<times> pagination) response \<times> slug_blog world" where
  "getBlogs_slug e px q = list_blogs e (getBlogs_slug_where px q) q"

subsection \<open>\<open>getBlogBySlug\<close>\<close>

definition getBlogBySlug_try :: "string \<Rightarrow> (slug_blog response, slug_blog) io" where
  "getBlogBySlug_try s =
     await (findUnique_slug s)
       (\<lambda>found.
          case found of
            None \<Rightarrow> return (refusal 404 ''Blog not found'')
          | Some blog \<Rightarrow>
              if deletedAt blog \<noteq> None then return (refusal 404 ''Blog not found'')
              else await (increment_views (blog_id blog))
                     (\<lambda>_. return (ok_response 200 None (Some blog))))"

definition getBlogBySlug ::
    "env \<Rightarrow> string \<Rightarrow> slug_blog world \<Rightarrow> slug_blog response \<times> slug_blog world" where
  "getBlogBySlug e s =
     controller (getBlogBySlug_try s)
       (answer_500 e ''Get blog error: '' ''Failed to fetch blog'')"

subsection \<open>\<open>createBlog\<close>\<close>

text \<open>
  Here the row is inserted last, with the locators already known, and the slug is the
  \<open>blogId\<close> argument of the upload functions. \<open>status = 'draft'\<close> is the default of the
  destructuring; \<open>summary || null\<close> turns an empty summary into \<open>null\<close>.
\<close>

definition createBlog_slug_try ::
    "env \<Rightarrow> platform \<Rightarrow> slug_create_request \<Rightarrow> (slug_blog response, slug_blog) io" where
  "createBlog_slug_try e px req =
     await (findUnique_slug (cr_slug req))
       (\<lambda>existingBlog.
          case existingBlog of
            Some b \<Rightarrow> return (refusal 409 ''A blog with this slug already exists'')
          | None \<Rightarrow>
              await (lift (sanitizeHTMLToBuffer px (buffer (cr_content req))))
                (\<lambda>sanitizedBuffer.
              await (uploadBlogContent e sanitizedBuffer (RefSlug (cr_slug req))
                       (mimetype (cr_content req)) None)
                (\<lambda>newContentUrl.
              await (case cr_cover req of
                       None \<Rightarrow> return None
                     | Some coverFile \<Rightarrow>
                         await (uploadBlogCoverImage e (path_extname px) (buffer coverFile)
                                  (RefSlug (cr_slug req)) (originalname coverFile)
                                  (Some (mimetype coverFile)))
                           (\<lambda>u. return (Some u)))
                (\<lambda>newCoverUrl.
              await (slug_blog_create (\<lambda>i now.
                       \<lparr>blog_id = i, title = cr_title req, tags = cr_tags req,
                        contentUrl = newContentUrl, coverImageUrl = newCoverUrl,
                        readTime = cr_readTime req, views = 0, likes = 0,
                        createdAt = now, updatedAt = now, deletedAt = None,
                        slug = cr_slug req, authorId = cr_authorId req,
                        summary = (if key_truthy (cr_summary req) then cr_summary req else None),
                        status = (case cr_status req of None \<Rightarrow> ''draft'' | Some st \<Rightarrow> st)\<rparr>))
                (\<lambda>blog.
              return (ok_response 201 (Some ''Blog created successfully'') (Some blog)))))))"

definition createBlog_slug ::
    "env \<Rightarrow> platform \<Rightarrow> slug_create_request
       \<Rightarrow> slug_blog world \<Rightarrow> slug_blog response \<times> slug_blog world" where
  "createBlog_slug e px req =
     controller (createBlog_slug_try e px req)
       (answer_500 e ''Create blog error: '' ''Failed to create blog'')"

section \<open>Notions used to state the properties\<close>

text \<open>
  The provider-HTTPS shape, said without reference to the matching function: somewhere in
  the string stands \<open>.amazonaws.com/\<close>, and what follows it is a non-empty key without
  line terminators.
\<close>

definition amazonaws_shape :: "string \<Rightarrow> bool" where
  "amazonaws_shape url =
     (\<exists>pre key. url = pre @ ''.amazonaws.com/'' @ key \<and> key \<noteq> []
                \<and> list_all (\<lambda>x. \<not> line_terminator x) key)"

text \<open>The final path segment of a key.\<close>

definition last_segment :: "string \<Rightarrow> string" where
  "last_segment key = rev (takeWhile (\<lambda>c. c \<noteq> CHR ''/'') (rev key))"

text \<open>The next \<open>n\<close> calls to the record store are answered (none of them is a fault).\<close>

definition db_answers :: "nat \<Rightarrow> 'r world \<Rightarrow> bool" where
  "db_answers n w = list_all (\<lambda>f. f = None) (take n (db_faults w))"

text \<open>The next \<open>n\<close> calls to the object store are answered.\<close>

definition s3_answers_next :: "nat \<Rightarrow> 'r world \<Rightarrow> bool" where
  "s3_answers_next n w = list_all (\<lambda>f. f = None) (take n (s3_faults w))"

subsection \<open>A concrete deployment, for running the model\<close>

definition example_env :: env where
  "example_env =
     \<lparr>S3_BUCKET = ''moksha-blogs'', S3_CDN_URL = Some ''https://cdn.example.com'',
      NODE_ENV = Some ''production''\<rparr>"

fun js_text :: "js_value \<Rightarrow> string" where
  "js_text (JStr s) = s"
| "js_text JNull = ''null''"
| "js_text JUndefined = ''undefined''"
| "js_text (JNum n) = ref_text (RefId n)"
| "js_text (JBool b) = (if b then ''true'' else ''false'')"
| "js_text JObj = ''[object Object]''"

definition example_signer :: signer where
  "example_signer bucket key expiresIn =
     Inr (''https://'' @ bucket @ ''.s3.amazonaws.com/'' @ js_text key @ ''?X-Amz-Expires=''
          @ ref_text (RefId expiresIn))"

definition example_platform :: platform where
  "example_platform =
     \<lparr>path_extname = posix_extname,
      DOMPurify_sanitize = (\<lambda>html. Inr html),
      getSignedUrl = example_signer,
      contains_insensitive = (\<lambda>text wanted. sublist wanted text)\<rparr>"

definition empty_world :: "'r world" where
  "empty_world =
     \<lparr>objects = Map.empty, sent = [], s3_faults = [], rows = [], next_id = 1, clock = 0,
      db_faults = [], error_log = []\<rparr>"

text \<open>
  Two worlds with the same bucket, the same commands sent and the same object-store
  fault schedule; and a computation that reads and writes nothing else, and logs nothing.
\<close>

definition same_s3 :: "'r world \<Rightarrow> 'r world \<Rightarrow> bool" where
  "same_s3 w w' = (objects w = objects w' \<and> sent w = sent w' \<and> s3_faults w = s3_faults w')"

definition s3_only :: "('a, 'r) io \<Rightarrow> bool" where
  "s3_only m =
     (\<forall>w w'. same_s3 w w' \<longrightarrow>
         fst (m w) = fst (m w') \<and> same_s3 (snd (m w)) (snd (m w'))
         \<and> error_log (snd (m w)) = error_log w)"

text \<open>
  What the object-store functions leave alone: the table, its fault schedule, the
  identifier counter and the clock.
\<close>

definition db_part :: "'r world \<Rightarrow> 'r list \<times> js_error option list \<times> int \<times> int" where
  "db_part w = (rows w, db_faults w, next_id w, clock w)"

definition keeps_db :: "('a, 'r) io \<Rightarrow> bool" where
  "keeps_db m = (\<forall>w. db_part (snd (m w)) = db_part w)"

subsection \<open>Example rows, worlds and requests\<close>

definition guide_row :: slug_blog where
  "guide_row =
     \<lparr>blog_id = 3, title = ''A guide'', tags = [''care''],
      contentUrl = ''s3://moksha-blogs/blogs/a-guide/text/html'', coverImageUrl = None,
      readTime = Some 4, views = 0, likes = 0, createdAt = 10, updatedAt = 10,
      deletedAt = None,
      slug = ''a-guide'', authorId = None, summary = Some ''How to'', status = ''published''\<rparr>"

definition retired_row :: slug_blog where
  "retired_row = guide_row\<lparr>blog_id := 4, slug := ''retired'', deletedAt := Some 20\<rparr>"

definition draft_row :: slug_blog where
  "draft_row = guide_row\<lparr>blog_id := 5, slug := ''notes'', status := ''draft''\<rparr>"

definition slug_world :: "slug_blog world" where
  "slug_world = empty_world\<lparr>rows := [guide_row, retired_row, draft_row], next_id := 6,
                            clock := 30\<rparr>"

definition html_upload :: upload where
  "html_upload = \<lparr>originalname = ''post.html'', mimetype = ''text/html'',
                  buffer = ''<p>first</p>''\<rparr>"

definition htm_upload :: upload where
  "htm_upload = \<lparr>originalname = ''post.htm'', mimetype = ''text/html'',
                 buffer = ''<p>second</p>''\<rparr>"

definition retired_request :: slug_create_request where
  "retired_request =
     \<lparr>cr_title = ''Again'', cr_tags = [], cr_readTime = None, cr_content = html_upload,
      cr_cover = None,
      cr_slug = ''retired'', cr_authorId = None, cr_summary = None, cr_status = None\<rparr>"

definition default_query :: list_query where
  "default_query =
     \<lparr>q_page = None, q_limit = None, q_search = None, q_status = None, q_tags = TagsAbsent\<rparr>"

text \<open>The same query with \<open>?status=draft\<close>.\<close>

definition draft_query :: list_query where
  "draft_query = default_query\<lparr>q_status := Some ''draft''\<rparr>"

text \<open>
  A record of the id-keyed controller whose content was stored by an earlier upload of
  \<open>post.html\<close>: its key is the one \<open>createBlog\<close> and \<open>updateBlog\<close> derive for a file of
  MIME type \<open>text/html\<close>.
\<close>

definition post_row :: blog where
  "post_row =
     \<lparr>blog_id = 1, title = ''A post'', tags = [],
      contentUrl = ''s3://moksha-blogs/blogs/1/text/html'', coverImageUrl = None,
      readTime = None, views = 0, likes = 0, createdAt = 10, updatedAt = 10,
      deletedAt = None\<rparr>"

definition post_world :: "blog world" where
  "post_world =
     empty_world\<lparr>objects := [''blogs/1/text/html'' \<mapsto>
                               \<lparr>body = ''<p>first</p>'', contentType = None\<rparr>],
                  rows := [post_row], next_id := 2, clock := 30\<rparr>"

definition htm_update :: update_request where
  "htm_update =
     \<lparr>ur_id = 1, ur_title = None, ur_tags = None, ur_readTime = None, ur_views = None,
      ur_likes = None, ur_files = Some \<lparr>content = Some htm_upload, cover = None\<rparr>\<rparr>"

definition html_update :: update_request where
  "html_update = htm_update\<lparr>ur_files := Some \<lparr>content = Some html_upload, cover = None\<rparr>\<rparr>"

definition html_create :: create_request where
  "html_create =
     \<lparr>cr_title = ''A post'', cr_tags = [], cr_readTime = None, cr_content = html_upload,
      cr_cover = None\<rparr>"

text \<open>
  A record whose cover locator has no known shape, in a world where the object store
  answers the first call and fails the second.
\<close>

definition corrupt_row :: blog where
  "corrupt_row = post_row\<lparr>blog_id := 9, coverImageUrl := Some ''cover-lost''\<rparr>"

definition corrupt_world :: "blog world" where
  "corrupt_world =
     empty_world\<lparr>objects := [''blogs/9/content.html'' \<mapsto>
                               \<lparr>body = ''<p>old</p>'', contentType = Some ''text/html''\<rparr>],
                  s3_faults := [None, Some (Err ''TimeoutError'' ''socket hang up'')],
                  rows := [corrupt_row], next_id := 10, clock := 30\<rparr>"

lemma replace_s3_prefix_uri:
  assumes "bucket \<noteq> []" "CHR ''/'' \<notin> set bucket"
  shows "replace_s3_prefix (s3_uri bucket key) = key"
proof -
  have tw: "takeWhile (\<lambda>c. c \<noteq> CHR ''/'') (bucket @ CHR ''/'' # key) = bucket"
    using assms(2) by (induction bucket) auto
  have dw: "dropWhile (\<lambda>c. c \<noteq> CHR ''/'') (bucket @ CHR ''/'' # key) = CHR ''/'' # key"
    using assms(2) by (induction bucket) auto
  show ?thesis
    using assms(1) by (simp add: replace_s3_prefix_def s3_uri_def tw dw)
qed

lemma replace_first_prefix: "replace_first pat (pat @ rest) = rest"
proof (cases "pat @ rest")
  case Nil
  then show ?thesis by simp
next
  case (Cons a list)
  have "prefix pat (a # list)"
    using Cons by (metis prefixI)
  then have "replace_first pat (a # list) = drop (length pat) (a # list)"
    by simp
  also have "\<dots> = rest"
    using Cons by (metis append_eq_conv_conj)
  finally show ?thesis
    using Cons by simp
qed

lemma match_here_marker:
  "match_here (''.amazonaws.com/'' @ k) =
     (if k \<noteq> [] \<and> list_all (\<lambda>x. \<not> line_terminator x) k then Some k else None)"
  by (simp add: match_here_def)

lemma match_here_Some:
  assumes "match_here s = Some k"
  shows "s = ''.amazonaws.com/'' @ k \<and> k \<noteq> [] \<and> list_all (\<lambda>x. \<not> line_terminator x) k"
proof -
  from assms have p: "prefix ''.amazonaws.com/'' s"
    by (simp add: match_here_def split: if_splits)
  then obtain zs where zs: "s = ''.amazonaws.com/'' @ zs"
    by (auto simp: prefix_def)
  from assms show ?thesis
    unfolding zs match_here_marker by (simp split: if_splits)
qed

lemma match_here_no_prefix: "\<not> prefix ''.amazonaws.com/'' s \<Longrightarrow> match_here s = None"
  by (simp add: match_here_def)

lemma marker_needs_empty_host:
  assumes "CHR ''/'' \<notin> set host"
    and "prefix ''.amazonaws.com/'' (host @ ''.amazonaws.com/'' @ key)"
  shows "host = []"
proof -
  from assms(2) obtain zs where eq: "host @ ''.amazonaws.com/'' @ key = ''.amazonaws.com/'' @ zs"
    by (auto simp: prefix_def)
  have "takeWhile (\<lambda>c. c \<noteq> CHR ''/'') (host @ ''.amazonaws.com/'' @ key) = host @ ''.amazonaws.com''"
    using assms(1) by (induction host) auto
  moreover have "takeWhile (\<lambda>c. c \<noteq> CHR ''/'') (''.amazonaws.com/'' @ zs) = ''.amazonaws.com''"
    by simp
  ultimately have "host @ ''.amazonaws.com'' = ''.amazonaws.com''"
    using eq by simp
  then have "length (host @ ''.amazonaws.com'') = length ''.amazonaws.com''"
    by simp
  then show ?thesis by simp
qed

lemma match_amazonaws_after_host:
  assumes "CHR ''/'' \<notin> set host" "key \<noteq> []" "list_all (\<lambda>x. \<not> line_terminator x) key"
  shows "match_amazonaws (host @ ''.amazonaws.com/'' @ key) = Some key"
  using assms(1)
proof (induction host)
  case Nil
  have "match_here (''.amazonaws.com/'' @ key) = Some key"
    using assms(2,3) match_here_marker [of key] by simp
  then show ?case by simp
next
  case (Cons c host)
  have "\<not> prefix ''.amazonaws.com/'' ((c # host) @ ''.amazonaws.com/'' @ key)"
    using marker_needs_empty_host [of "c # host" key] Cons.prems by blast
  then have "match_here ((c # host) @ ''.amazonaws.com/'' @ key) = None"
    by (rule match_here_no_prefix)
  then show ?case using Cons by simp
qed

lemma match_amazonaws_Some:
  "match_amazonaws url = Some k \<Longrightarrow>
     \<exists>pre. url = pre @ ''.amazonaws.com/'' @ k \<and> k \<noteq> [] \<and> list_all (\<lambda>x. \<not> line_terminator x) k"
proof (induction url)
  case Nil
  then show ?case by simp
next
  case (Cons c cs)
  show ?case
  proof (cases "match_here (c # cs)")
    case (Some k')
    then have "k' = k" using Cons.prems by simp
    then have "c # cs = [] @ ''.amazonaws.com/'' @ k \<and> k \<noteq> [] \<and> list_all (\<lambda>x. \<not> line_terminator x) k"
      using match_here_Some [OF Some] by simp
    then show ?thesis by blast
  next
    case None
    then have "match_amazonaws cs = Some k" using Cons.prems by simp
    then obtain pre where "cs = pre @ ''.amazonaws.com/'' @ k \<and> k \<noteq> [] \<and> list_all (\<lambda>x. \<not> line_terminator x) k"
      using Cons.IH by blast
    then have "c # cs = (c # pre) @ ''.amazonaws.com/'' @ k \<and> k \<noteq> [] \<and> list_all (\<lambda>x. \<not> line_terminator x) k"
      by simp
    then show ?thesis by blast
  qed
qed

lemma match_amazonaws_complete:
  assumes "k \<noteq> []" "list_all (\<lambda>x. \<not> line_terminator x) k"
  shows "match_amazonaws (pre @ ''.amazonaws.com/'' @ k) \<noteq> None"
proof (induction pre)
  case Nil
  have "match_here (''.amazonaws.com/'' @ k) = Some k"
    using assms match_here_marker [of k] by simp
  then show ?case by simp
next
  case (Cons c pre)
  then show ?case by (cases "match_here (c # pre @ ''.amazonaws.com/'' @ k)") auto
qed


section \<open>The key codec: both extractors agree\<close>

text \<open>
  C10. The two implementations of key extraction, \<open>extractS3Key\<close> of the presigned-URL
  module and \<open>extractKeyFromUrl\<close> of the S3 service, give the same result on every
  value and under every environment (the same for both): the same key, or both \<open>null\<close>.
\<close>

theorem extractS3Key_eq_extractKeyFromUrl:
  "extractS3Key e v = extractKeyFromUrl e v"
  by (cases v) (simp_all add: extractS3Key_def extractKeyFromUrl_def)

theorem extractS3Key_eq_extractKeyFromUrl_witness:
  "extractS3Key example_env (JStr ''s3://moksha-blogs/blogs/7/cover.png'')
     = Inr (Some ''blogs/7/cover.png'')"
  using extractS3Key_eq_extractKeyFromUrl
          [of example_env "JStr ''s3://moksha-blogs/blogs/7/cover.png''"]
  by (simp add: extractKeyFromUrl_def replace_s3_prefix_def)

section \<open>The key codec: extraction never raises\<close>

lemma match_amazonaws_None_iff: "match_amazonaws url = None \<longleftrightarrow> \<not> amazonaws_shape url"
proof
  assume none: "match_amazonaws url = None"
  show "\<not> amazonaws_shape url"
  proof
    assume "amazonaws_shape url"
    then obtain pre key where "url = pre @ ''.amazonaws.com/'' @ key" "key \<noteq> []"
        "list_all (\<lambda>x. \<not> line_terminator x) key"
      by (auto simp: amazonaws_shape_def)
    then have "match_amazonaws url \<noteq> None"
      using match_amazonaws_complete by blast
    with none show False by simp
  qed
next
  assume no_shape: "\<not> amazonaws_shape url"
  show "match_amazonaws url = None"
  proof (cases "match_amazonaws url")
    case None
    then show ?thesis .
  next
    case (Some k)
    from match_amazonaws_Some [OF Some] have "amazonaws_shape url"
      by (auto simp: amazonaws_shape_def)
    with no_shape show ?thesis by simp
  qed
qed

text \<open>
  C4. Key extraction returns on every input and never raises: the result is always a
  value (\<open>Inr\<close>), a falsy locator (\<open>null\<close>, \<open>undefined\<close>, the empty string) gives \<open>null\<close>,
  and so does every non-empty string that has none of the three shapes: it does not start
  with \<open>s3://\<close>, it does not start with the configured CDN base, and it holds no
  \<open>.amazonaws.com/\<close> followed by a key.
\<close>

theorem extractKeyFromUrl_never_raises:
  "(\<exists>r. extractKeyFromUrl e v = Inr r)
   \<and> (\<not> truthy v \<longrightarrow> extractKeyFromUrl e v = Inr None)
   \<and> (url \<noteq> [] \<and> \<not> prefix ''s3://'' url \<and> \<not> cdn_applies (S3_CDN_URL e) url
        \<and> \<not> amazonaws_shape url
      \<longrightarrow> extractKeyFromUrl e (JStr url) = Inr None)"
proof (intro conjI impI)
  show "\<exists>r. extractKeyFromUrl e v = Inr r"
    by (cases v) (auto simp: extractKeyFromUrl_def split: option.splits)
next
  assume "\<not> truthy v"
  then show "extractKeyFromUrl e v = Inr None"
    by (simp add: extractKeyFromUrl_def)
next
  assume h: "url \<noteq> [] \<and> \<not> prefix ''s3://'' url \<and> \<not> cdn_applies (S3_CDN_URL e) url
        \<and> \<not> amazonaws_shape url"
  then have "match_amazonaws url = None"
    by (simp add: match_amazonaws_None_iff)
  with h show "extractKeyFromUrl e (JStr url) = Inr None"
    by (simp add: extractKeyFromUrl_def)
qed

theorem extractKeyFromUrl_never_raises_witness:
  "extractKeyFromUrl example_env JNull = Inr None
   \<and> extractKeyFromUrl example_env (JStr ''garbage'') = Inr None"
proof -
  have falsy: "\<not> truthy JNull"
    by simp
  have "match_amazonaws ''garbage'' = None"
    by (simp add: match_here_def)
  then have shapeless: "''garbage'' \<noteq> [] \<and> \<not> prefix ''s3://'' ''garbage''
      \<and> \<not> cdn_applies (S3_CDN_URL example_env) ''garbage'' \<and> \<not> amazonaws_shape ''garbage''"
    by (simp add: match_amazonaws_None_iff [symmetric] cdn_applies_def example_env_def)
  from falsy shapeless extractKeyFromUrl_never_raises [of example_env JNull "''garbage''"]
  show ?thesis by blast
qed

section \<open>The key codec: round trip\<close>

lemma extract_s3_uri:
  assumes "bucket \<noteq> []" "CHR ''/'' \<notin> set bucket"
  shows "extractKeyFromUrl e (JStr (s3_uri bucket key)) = Inr (Some key)"
proof -
  have "prefix ''s3://'' (s3_uri bucket key)"
    by (simp add: s3_uri_def)
  moreover have "s3_uri bucket key \<noteq> []"
    by (simp add: s3_uri_def)
  ultimately show ?thesis
    using replace_s3_prefix_uri [OF assms] by (simp add: extractKeyFromUrl_def)
qed

lemma extract_cdn_url:
  assumes "S3_CDN_URL e = Some cdn" "prefix ''https://'' cdn"
  shows "extractKeyFromUrl e (JStr (cdn_url cdn key)) = Inr (Some key)"
proof -
  from assms(2) obtain rest where cdn: "cdn = ''https://'' @ rest"
    by (auto simp: prefix_def)
  have no_s3: "\<not> prefix ''s3://'' (cdn_url cdn key)"
    by (simp add: cdn cdn_url_def)
  have applies: "cdn_applies (S3_CDN_URL e) (cdn_url cdn key)"
    using assms(1) by (simp add: cdn_applies_def cdn_url_def cdn)
  have "replace_first (cdn @ ''/'') ((cdn @ ''/'') @ key) = key"
    by (rule replace_first_prefix)
  then have "replace_first (cdn_text (S3_CDN_URL e) @ ''/'') (cdn_url cdn key) = key"
    using assms(1) by (simp add: cdn_text_def cdn_url_def)
  moreover have "cdn_url cdn key \<noteq> []"
    by (simp add: cdn cdn_url_def)
  ultimately show ?thesis
    using no_s3 applies by (simp add: extractKeyFromUrl_def)
qed

lemma match_amazonaws_https:
  "match_amazonaws (''https://'' @ rest) = match_amazonaws rest"
  by (simp add: match_here_def)

lemma extract_s3_https_url:
  assumes "CHR ''/'' \<notin> set bucket" "CHR ''/'' \<notin> set region"
    and "key \<noteq> []" "list_all (\<lambda>x. \<not> line_terminator x) key"
    and "\<not> cdn_applies (S3_CDN_URL e) (s3_https_url bucket region key)"
  shows "extractKeyFromUrl e (JStr (s3_https_url bucket region key)) = Inr (Some key)"
proof -
  let ?host = "bucket @ ''.s3.'' @ region"
  have url: "s3_https_url bucket region key = ''https://'' @ ?host @ ''.amazonaws.com/'' @ key"
    by (simp add: s3_https_url_def)
  have "CHR ''/'' \<notin> set ?host"
    using assms(1,2) by simp
  then have "match_amazonaws (?host @ ''.amazonaws.com/'' @ key) = Some key"
    using assms(3,4) by (rule match_amazonaws_after_host)
  then have m: "match_amazonaws (s3_https_url bucket region key) = Some key"
    unfolding url match_amazonaws_https .
  have no_s3: "\<not> prefix ''s3://'' (s3_https_url bucket region key)"
    by (simp add: s3_https_url_def)
  have "s3_https_url bucket region key \<noteq> []"
    by (simp add: s3_https_url_def)
  then show ?thesis
    using m no_s3 assms(5) by (simp add: extractKeyFromUrl_def)
qed

lemma uploadFile_locator:
  assumes "uploadFile e bytes key ctype w = (Inr locator, w')"
  shows "locator = s3_uri (S3_BUCKET e) key"
  using assms
  by (auto simp: uploadFile_def try_catch_def await_def return_def throw_def logger_error_def
        s3_uri_def split: prod.splits sum.splits)

text \<open>
  C2. For a key derived for either slot of a record, the key read back from a locator is
  the key itself: from the locator that \<open>uploadFile\<close> returns for it and from the
  \<open>s3://bucket/key\<close> form in general, from the CDN form when the configured base is an
  HTTPS URL, and from the provider's HTTPS form when the region has no \<open>/\<close>, the key has no
  line terminator and the URL does not fall under the configured CDN base. The bucket is
  a bucket name: non-empty and without \<open>/\<close>.
\<close>

theorem key_roundtrip:
  assumes "S3_BUCKET e \<noteq> []" and "CHR ''/'' \<notin> set (S3_BUCKET e)"
    and "key = content_key blogId name \<or> key = cover_key extname blogId name"
  shows "(uploadFile e bytes key ctype w = (Inr locator, w')
            \<longrightarrow> extractKeyFromUrl e (JStr locator) = Inr (Some key))
       \<and> extractKeyFromUrl e (JStr (s3_uri (S3_BUCKET e) key)) = Inr (Some key)
       \<and> (S3_CDN_URL e = Some cdn \<and> prefix ''https://'' cdn
            \<longrightarrow> extractKeyFromUrl e (JStr (cdn_url cdn key)) = Inr (Some key))
       \<and> (CHR ''/'' \<notin> set region \<and> list_all (\<lambda>x. \<not> line_terminator x) key
            \<and> \<not> cdn_applies (S3_CDN_URL e) (s3_https_url (S3_BUCKET e) region key)
            \<longrightarrow> extractKeyFromUrl e (JStr (s3_https_url (S3_BUCKET e) region key))
                  = Inr (Some key))"
proof (intro conjI impI)
  have uri: "extractKeyFromUrl e (JStr (s3_uri (S3_BUCKET e) key)) = Inr (Some key)"
    using assms(1,2) by (rule extract_s3_uri)
  show "extractKeyFromUrl e (JStr (s3_uri (S3_BUCKET e) key)) = Inr (Some key)"
    by (rule uri)
  show "extractKeyFromUrl e (JStr locator) = Inr (Some key)"
    if "uploadFile e bytes key ctype w = (Inr locator, w')"
    using uploadFile_locator [OF that] uri by simp
  show "extractKeyFromUrl e (JStr (cdn_url cdn key)) = Inr (Some key)"
    if "S3_CDN_URL e = Some cdn \<and> prefix ''https://'' cdn"
    using that extract_cdn_url by blast
  have nonempty: "key \<noteq> []"
    using assms(3) by (auto simp: content_key_def cover_key_def)
  show "extractKeyFromUrl e (JStr (s3_https_url (S3_BUCKET e) region key)) = Inr (Some key)"
    if "CHR ''/'' \<notin> set region \<and> list_all (\<lambda>x. \<not> line_terminator x) key
          \<and> \<not> cdn_applies (S3_CDN_URL e) (s3_https_url (S3_BUCKET e) region key)"
    using that assms(2) nonempty extract_s3_https_url by blast
qed

lemma decimal_7: "decimal 7 = ''7''"
  by code_simp

lemma decimal_300: "decimal 300 = ''300''"
  by code_simp

lemma decimal_3600: "decimal 3600 = ''3600''"
  by code_simp

theorem key_roundtrip_witness:
  "extractKeyFromUrl example_env (JStr ''s3://moksha-blogs/blogs/7/guide.docx'')
     = Inr (Some ''blogs/7/guide.docx'')
   \<and> extractKeyFromUrl example_env (JStr ''https://cdn.example.com/blogs/7/guide.docx'')
     = Inr (Some ''blogs/7/guide.docx'')
   \<and> extractKeyFromUrl example_env
        (JStr ''https://moksha-blogs.s3.ap-south-1.amazonaws.com/blogs/7/guide.docx'')
     = Inr (Some ''blogs/7/guide.docx'')"
proof -
  let ?key = "content_key (RefId 7) ''guide.docx''"
  have key: "?key = ''blogs/7/guide.docx''"
    by (simp add: content_key_def decimal_7)
  have b1: "S3_BUCKET example_env \<noteq> []"
    by (simp add: example_env_def)
  have b2: "CHR ''/'' \<notin> set (S3_BUCKET example_env)"
    by (simp add: example_env_def)
  have d: "?key = content_key (RefId 7) ''guide.docx''
             \<or> ?key = cover_key posix_extname (RefId 7) ''guide.docx''"
    by simp
  have up: "uploadFile example_env ''<p>text</p>'' ?key None (empty_world :: blog world)
              = (Inr ''s3://moksha-blogs/blogs/7/guide.docx'',
                 empty_world\<lparr>objects := [''blogs/7/guide.docx'' \<mapsto>
                                 \<lparr>body = ''<p>text</p>'', contentType = None\<rparr>],
                              sent := [PutObjectCommand ''blogs/7/guide.docx''
                                 \<lparr>body = ''<p>text</p>'', contentType = None\<rparr>]\<rparr>)"
    by (simp add: key uploadFile_def try_catch_def await_def return_def s3_send_def s3_run_def
          empty_world_def example_env_def)
  have c: "S3_CDN_URL example_env = Some ''https://cdn.example.com''
             \<and> prefix ''https://'' ''https://cdn.example.com''"
    by (simp add: example_env_def)
  have h: "CHR ''/'' \<notin> set ''ap-south-1'' \<and> list_all (\<lambda>x. \<not> line_terminator x) ?key
             \<and> \<not> cdn_applies (S3_CDN_URL example_env)
                    (s3_https_url (S3_BUCKET example_env) ''ap-south-1'' ?key)"
    by (simp add: key line_terminator_def cdn_applies_def example_env_def s3_https_url_def)
  from up c h
    key_roundtrip [OF b1 b2 d, where bytes = "''<p>text</p>''" and ctype = None
      and w = "empty_world :: blog world"
      and locator = "''s3://moksha-blogs/blogs/7/guide.docx''"
      and w' = "empty_world\<lparr>objects := [''blogs/7/guide.docx'' \<mapsto>
                                 \<lparr>body = ''<p>text</p>'', contentType = None\<rparr>],
                              sent := [PutObjectCommand ''blogs/7/guide.docx''
                                 \<lparr>body = ''<p>text</p>'', contentType = None\<rparr>]\<rparr>"
      and cdn = "''https://cdn.example.com''" and region = "''ap-south-1''"]
  show ?thesis
    by (simp add: key s3_uri_def cdn_url_def s3_https_url_def example_env_def)
qed

section \<open>Key derivation\<close>

text \<open>
  C3, as the code has it. The cover image goes under \<open>blogs/<blogId>/cover<extension>\<close>,
  the extension being \<open>path.extname\<close> of the original name. The content goes under
  \<open>blogs/<blogId>/<originalFilename>\<close>: the file-name argument as it is, with no
  \<open>content\<close> segment. Both puts are sent under these keys whatever the store answers,
  and when the store answers, the locator returned is the \<open>s3://\<close> form of the key and
  the object is in the bucket under the key.
\<close>

theorem upload_keys:
  "sent (snd (uploadBlogContent e bytes blogId name ctype w))
     = sent w @ [PutObjectCommand (''blogs/'' @ ref_text blogId @ ''/'' @ name)
                   \<lparr>body = bytes, contentType = ctype\<rparr>]
   \<and> sent (snd (uploadBlogCoverImage e extname picture blogId pname ptype w))
     = sent w @ [PutObjectCommand (''blogs/'' @ ref_text blogId @ ''/cover'' @ extname pname)
                   \<lparr>body = picture, contentType = ptype\<rparr>]
   \<and> (s3_answers_next 1 w \<longrightarrow>
        fst (uploadBlogContent e bytes blogId name ctype w)
          = Inr (s3_uri (S3_BUCKET e) (''blogs/'' @ ref_text blogId @ ''/'' @ name))
        \<and> objects (snd (uploadBlogContent e bytes blogId name ctype w))
            (''blogs/'' @ ref_text blogId @ ''/'' @ name)
          = Some \<lparr>body = bytes, contentType = ctype\<rparr>
        \<and> fst (uploadBlogCoverImage e extname picture blogId pname ptype w)
          = Inr (s3_uri (S3_BUCKET e) (''blogs/'' @ ref_text blogId @ ''/cover'' @ extname pname))
        \<and> objects (snd (uploadBlogCoverImage e extname picture blogId pname ptype w))
            (''blogs/'' @ ref_text blogId @ ''/cover'' @ extname pname)
          = Some \<lparr>body = picture, contentType = ptype\<rparr>)"
  by (auto simp: uploadBlogContent_def uploadBlogCoverImage_def content_key_def cover_key_def
        uploadFile_def try_catch_def await_def return_def throw_def logger_error_def
        s3_send_def s3_run_def s3_answers_next_def s3_uri_def Let_def
        split: list.splits option.splits)

theorem upload_keys_witness:
  "fst (uploadBlogContent example_env ''<p>text</p>'' (RefId 7) ''guide.html''
          (Some ''text/html'') (empty_world :: blog world))
     = Inr ''s3://moksha-blogs/blogs/7/guide.html''
   \<and> fst (uploadBlogCoverImage example_env posix_extname ''PNG'' (RefId 7) ''photo.png''
            (Some ''image/png'') (empty_world :: blog world))
     = Inr ''s3://moksha-blogs/blogs/7/cover.png''"
proof -
  have ok: "s3_answers_next 1 (empty_world :: blog world)"
    by (simp add: s3_answers_next_def empty_world_def)
  have ext: "posix_extname ''photo.png'' = ''.png''"
    by (simp add: posix_extname_def)
  from ok upload_keys [of example_env "''<p>text</p>''" "RefId 7" "''guide.html''"
      "Some ''text/html''" "empty_world :: blog world" posix_extname "''PNG''"
      "''photo.png''" "Some ''image/png''"]
  show ?thesis
    by (simp add: decimal_7 s3_uri_def example_env_def ext)
qed

text \<open>
  The claim as written fails: a content file named \<open>guide.html\<close>, uploaded for record 7,
  is put under \<open>blogs/7/guide.html\<close>, whose last segment is the file's own name and not
  \<open>content.html\<close>.
\<close>

theorem content_key_counterexample:
  "sent (snd (uploadBlogContent example_env ''<p>text</p>'' (RefId 7) ''guide.html''
               (Some ''text/html'') (empty_world :: blog world)))
     = [PutObjectCommand ''blogs/7/guide.html''
          \<lparr>body = ''<p>text</p>'', contentType = Some ''text/html''\<rparr>]
   \<and> last_segment ''blogs/7/guide.html'' = ''guide.html''
   \<and> ''guide.html'' \<noteq> ''content'' @ posix_extname ''guide.html''"
  by (simp add: uploadBlogContent_def content_key_def decimal_7 uploadFile_def try_catch_def
        await_def return_def s3_send_def s3_run_def empty_world_def last_segment_def
        posix_extname_def)

text \<open>
  What the id-keyed \<open>createBlog\<close> makes of this: it passes the MIME type in the place
  of the file name, so the content of \<open>post.html\<close> goes under \<open>blogs/1/text/html\<close>.
\<close>

lemma decimal_1: "decimal (Suc 0) = ''1''"
  by code_simp

lemma createBlog_content_key:
  "sent (snd (createBlog example_env example_platform html_create empty_world))
     = [PutObjectCommand ''blogs/1/text/html''
          \<lparr>body = ''<p>first</p>'', contentType = None\<rparr>]"
  by (simp add: createBlog_def controller_def createBlog_try_def await_def blog_create_def
        blog_update_def prisma_def lift_def sanitizeHTMLToBuffer_def sanitizeHTML_def
        js_trim_def js_whitespace_def uploadBlogContent_def uploadFile_def content_key_def
        decimal_1 try_catch_def s3_send_def s3_run_def return_def throw_def ok_response_def
        html_create_def html_upload_def empty_world_def example_env_def example_platform_def
        Let_def)

section \<open>The presigned-URL issuer\<close>

lemma extractS3Key_returns: "\<exists>r. extractS3Key e v = Inr r"
  by (cases v) (auto simp: extractS3Key_def split: option.splits)

text \<open>
  C7, as the code has it. The issuer fails before signing exactly when the locator is
  falsy, with \<open>S3 URL is required\<close>. For every other locator it calls the signer: with the
  extracted key when one is extracted and non-empty, and with the locator itself
  otherwise. So a non-empty string of no known shape is signed as a key in its own right,
  and the error \<open>Could not extract S3 key from URL\<close> is never raised. An exception of the
  signer is rethrown with the prefix \<open>Failed to generate presigned URL\<close>.
\<close>

theorem generatePresignedUrl_key_choice:
  "(\<not> truthy s3Url \<longrightarrow>
      generatePresignedUrl e sign s3Url ttl
        = Inl (new_Error ''Failed to generate presigned URL: S3 URL is required''))
   \<and> (truthy s3Url \<longrightarrow>
      generatePresignedUrl e sign s3Url ttl
        = (case sign (S3_BUCKET e)
                  (case extractS3Key e s3Url of
                     Inr (Some k) \<Rightarrow> if k \<noteq> [] then JStr k else s3Url
                   | _ \<Rightarrow> s3Url)
                  (case ttl of None \<Rightarrow> 3600 | Some n \<Rightarrow> n) of
             Inr presignedUrl \<Rightarrow> Inr presignedUrl
           | Inl err \<Rightarrow>
               Inl (new_Error (''Failed to generate presigned URL: '' @ err_message err))))"
proof (intro conjI impI)
  assume "\<not> truthy s3Url"
  then show "generatePresignedUrl e sign s3Url ttl
        = Inl (new_Error ''Failed to generate presigned URL: S3 URL is required'')"
    by (simp add: generatePresignedUrl_def generatePresignedUrl_try_def new_Error_def)
next
  assume t: "truthy s3Url"
  obtain r where r: "extractS3Key e s3Url = Inr r"
    using extractS3Key_returns by blast
  show "generatePresignedUrl e sign s3Url ttl
        = (case sign (S3_BUCKET e)
                  (case extractS3Key e s3Url of
                     Inr (Some k) \<Rightarrow> if k \<noteq> [] then JStr k else s3Url
                   | _ \<Rightarrow> s3Url)
                  (case ttl of None \<Rightarrow> 3600 | Some n \<Rightarrow> n) of
             Inr presignedUrl \<Rightarrow> Inr presignedUrl
           | Inl err \<Rightarrow>
               Inl (new_Error (''Failed to generate presigned URL: '' @ err_message err)))"
    using t r
    by (cases r) (auto simp: generatePresignedUrl_def generatePresignedUrl_try_def Let_def)
qed

theorem generatePresignedUrl_key_choice_witness:
  "generatePresignedUrl example_env example_signer JNull None
     = Inl (new_Error ''Failed to generate presigned URL: S3 URL is required'')
   \<and> generatePresignedUrl example_env example_signer
        (JStr ''s3://moksha-blogs/blogs/7/cover.png'') (Some 300)
     = Inr ''https://moksha-blogs.s3.amazonaws.com/blogs/7/cover.png?X-Amz-Expires=300''"
proof -
  have f: "\<not> truthy JNull"
    by simp
  have t: "truthy (JStr ''s3://moksha-blogs/blogs/7/cover.png'')"
    by simp
  have k: "extractS3Key example_env (JStr ''s3://moksha-blogs/blogs/7/cover.png'')
             = Inr (Some ''blogs/7/cover.png'')"
    by (simp add: extractS3Key_def replace_s3_prefix_def)
  have bucket: "S3_BUCKET example_env = ''moksha-blogs''"
    by (simp add: example_env_def)
  from f generatePresignedUrl_key_choice [of JNull example_env example_signer None]
  have a: "generatePresignedUrl example_env example_signer JNull None
     = Inl (new_Error ''Failed to generate presigned URL: S3 URL is required'')"
    by blast
  from t generatePresignedUrl_key_choice
           [of "JStr ''s3://moksha-blogs/blogs/7/cover.png''" example_env example_signer "Some 300"]
  have b: "generatePresignedUrl example_env example_signer
        (JStr ''s3://moksha-blogs/blogs/7/cover.png'') (Some 300)
     = Inr ''https://moksha-blogs.s3.amazonaws.com/blogs/7/cover.png?X-Amz-Expires=300''"
    by (simp add: k bucket example_signer_def decimal_300)
  from a b show ?thesis by simp
qed

text \<open>
  The claim as written fails: \<open>garbage\<close> has none of the known shapes, no key is
  extracted from it, and the issuer returns a signed URL for the key \<open>garbage\<close>.
\<close>

theorem generatePresignedUrl_counterexample:
  "extractS3Key example_env (JStr ''garbage'') = Inr None
   \<and> generatePresignedUrl example_env example_signer (JStr ''garbage'') None
     = Inr ''https://moksha-blogs.s3.amazonaws.com/garbage?X-Amz-Expires=3600''"
proof -
  have k: "extractS3Key example_env (JStr ''garbage'') = Inr None"
    by (simp add: extractS3Key_def match_here_def cdn_applies_def example_env_def)
  have "generatePresignedUrl example_env example_signer (JStr ''garbage'') None
          = example_signer (S3_BUCKET example_env) (JStr ''garbage'') 3600"
    by (simp add: k generatePresignedUrl_def generatePresignedUrl_try_def example_signer_def)
  then show ?thesis
    using k by (simp add: example_signer_def example_env_def decimal_3600)
qed

section \<open>The record store\<close>

lemma prisma_answered:
  assumes "db_answers (Suc n) w"
  shows "prisma query w = query (w\<lparr>db_faults := tl (db_faults w)\<rparr>)"
    and "db_answers n (w\<lparr>db_faults := tl (db_faults w)\<rparr>)"
  using assms by (cases "db_faults w"; auto simp: prisma_def db_answers_def)+

lemma find_slug_present:
  assumes "b \<in> set rs" "slug b = s"
  shows "\<exists>b'. find (\<lambda>r. slug r = s) rs = Some b'"
  using assms by (cases "find (\<lambda>r. slug r = s) rs") (auto simp: find_None_iff)

text \<open>
  C8. When a row with the requested slug is in the table, \<open>createBlog\<close> of the slug-keyed
  controller answers 409 and changes neither the table nor the bucket. Nothing is assumed
  about the row's \<open>deletedAt\<close>: a soft-deleted row blocks the slug as a live one does. The
  lookup itself has to be answered by the record store.
\<close>

theorem createBlog_slug_duplicate:
  assumes "b \<in> set (rows w)" and "slug b = cr_slug req" and "db_answers 1 w"
  shows "fst (createBlog_slug e px req w) = refusal 409 ''A blog with this slug already exists''
       \<and> rows (snd (createBlog_slug e px req w)) = rows w
       \<and> objects (snd (createBlog_slug e px req w)) = objects w
       \<and> sent (snd (createBlog_slug e px req w)) = sent w"
proof -
  obtain b' where f: "find (\<lambda>r. slug r = cr_slug req) (rows w) = Some b'"
    using find_slug_present [OF assms(1,2)] by blast
  have a: "db_answers (Suc 0) w"
    using assms(3) by simp
  show ?thesis
    by (simp add: createBlog_slug_def controller_def createBlog_slug_try_def await_def
          findUnique_slug_def prisma_answered(1) [OF a] f return_def)
qed

theorem createBlog_slug_duplicate_witness:
  "deletedAt retired_row \<noteq> None
   \<and> fst (createBlog_slug example_env example_platform retired_request slug_world)
       = refusal 409 ''A blog with this slug already exists''
   \<and> rows (snd (createBlog_slug example_env example_platform retired_request slug_world))
       = rows slug_world"
proof -
  have m: "retired_row \<in> set (rows slug_world)"
    by (simp add: slug_world_def empty_world_def)
  have s: "slug retired_row = cr_slug retired_request"
    by (simp add: retired_row_def retired_request_def)
  have a: "db_answers 1 slug_world"
    by (simp add: db_answers_def slug_world_def empty_world_def)
  have d: "deletedAt retired_row \<noteq> None"
    by (simp add: retired_row_def)
  from d createBlog_slug_duplicate [OF m s a, of example_env example_platform]
  show ?thesis by simp
qed

section \<open>Listing\<close>

lemma list_blogs_answered:
  assumes "db_answers 2 w"
  shows "fst (list_blogs e wh q w)
           = ok_response 200 None
               (Some (take (or_default (q_limit q) 20)
                        (drop ((or_default (q_page q) 1 - 1) * or_default (q_limit q) 20)
                           (sort_key (\<lambda>b. - createdAt b) (filter wh (rows w)))),
                      page_of q (length (filter wh (rows w)))))"
proof -
  have a: "db_answers (Suc (Suc 0)) w"
    using assms by (simp add: numeral_2_eq_2)
  note b = prisma_answered(2) [OF a]
  show ?thesis
    by (simp add: list_blogs_def controller_def await_def findMany_def count_rows_def
          prisma_answered(1) [OF a] prisma_answered(1) [OF b] return_def)
qed

lemma list_blogs_data:
  assumes "data (fst (list_blogs e wh q w)) = Some (blogs, pg)" and "b \<in> set blogs"
  shows "b \<in> set (rows w) \<and> wh b"
proof -
  have "set blogs \<subseteq> set (filter wh (rows w))"
  proof (cases "db_faults w")
    case Nil
    then have "db_answers 2 w"
      by (simp add: db_answers_def)
    from list_blogs_answered [OF this, of e wh q] assms(1)
    have "blogs = take (or_default (q_limit q) 20)
                    (drop ((or_default (q_page q) 1 - 1) * or_default (q_limit q) 20)
                       (sort_key (\<lambda>b. - createdAt b) (filter wh (rows w))))"
      by (simp add: ok_response_def)
    then show ?thesis
      by (metis set_take_subset set_drop_subset subset_trans set_sort)
  next
    case (Cons f fs)
    show ?thesis
    proof (cases f)
      case (Some err)
      with Cons assms(1) show ?thesis
        by (simp add: list_blogs_def controller_def await_def findMany_def prisma_def
              answer_500_def)
    next
      case None
      show ?thesis
      proof (cases fs)
        case Nil
        with Cons None have "db_answers 2 w"
          by (simp add: db_answers_def)
        from list_blogs_answered [OF this, of e wh q] assms(1)
        have "blogs = take (or_default (q_limit q) 20)
                    (drop ((or_default (q_page q) 1 - 1) * or_default (q_limit q) 20)
                       (sort_key (\<lambda>b. - createdAt b) (filter wh (rows w))))"
          by (simp add: ok_response_def)
        then show ?thesis
          by (metis set_take_subset set_drop_subset subset_trans set_sort)
      next
        case (Cons g gs)
        show ?thesis
        proof (cases g)
          case (Some err)
          with Cons None \<open>db_faults w = f # fs\<close> assms(1) show ?thesis
            by (simp add: list_blogs_def controller_def await_def findMany_def count_rows_def
                  prisma_def answer_500_def)
        next
          case None
          with Cons \<open>f = None\<close> \<open>db_faults w = f # fs\<close> have "db_answers 2 w"
            by (simp add: db_answers_def numeral_2_eq_2)
          from list_blogs_answered [OF this, of e wh q] assms(1)
          have "blogs = take (or_default (q_limit q) 20)
                    (drop ((or_default (q_page q) 1 - 1) * or_default (q_limit q) 20)
                       (sort_key (\<lambda>b. - createdAt b) (filter wh (rows w))))"
            by (simp add: ok_response_def)
          then show ?thesis
            by (metis set_take_subset set_drop_subset subset_trans set_sort)
        qed
      qed
    qed
  qed
  with assms(2) show ?thesis by auto
qed

text \<open>
  C9, as the code has it. A list query of the slug-keyed controller is answered with 200
  and a page of rows whenever the record store answers its two calls, and every row in a
  page it returns is a row of the table with \<open>deletedAt = null\<close> and with the status
  asked for: the caller's status when one is supplied, \<open>published\<close> otherwise. The
  id-keyed controller never reads \<open>req.query.status\<close>: the rows it returns are rows with
  \<open>deletedAt = null\<close>, and its answer is the same whatever status the caller supplies.
\<close>

theorem getBlogs_default_filter:
  "(db_answers 2 w \<longrightarrow>
      status_code (fst (getBlogs_slug e px q w)) = 200
      \<and> (\<exists>blogs pg. data (fst (getBlogs_slug e px q w)) = Some (blogs, pg)))
   \<and> (data (fst (getBlogs_slug e px q w)) = Some (blogs, pg) \<and> b \<in> set blogs \<longrightarrow>
        b \<in> set (rows w) \<and> deletedAt b = None
        \<and> status b = (case q_status q of
                        None \<Rightarrow> ''published''
                      | Some st \<Rightarrow> if st = [] then ''published'' else st))
   \<and> (data (fst (getBlogs e px q v)) = Some (blogs', pg') \<and> b' \<in> set blogs' \<longrightarrow>
        b' \<in> set (rows v) \<and> deletedAt b' = None)
   \<and> getBlogs e px (q\<lparr>q_status := asked\<rparr>) v = getBlogs e px q v"
proof (intro conjI impI)
  assume a: "db_answers 2 w"
  show "status_code (fst (getBlogs_slug e px q w)) = 200"
    by (simp add: getBlogs_slug_def list_blogs_answered [OF a] ok_response_def)
  show "\<exists>blogs pg. data (fst (getBlogs_slug e px q w)) = Some (blogs, pg)"
    by (simp add: getBlogs_slug_def list_blogs_answered [OF a] ok_response_def)
next
  assume h: "data (fst (getBlogs_slug e px q w)) = Some (blogs, pg) \<and> b \<in> set blogs"
  then have r: "b \<in> set (rows w) \<and> getBlogs_slug_where px q b"
    using list_blogs_data [of e "getBlogs_slug_where px q" q w blogs pg b]
    by (simp add: getBlogs_slug_def)
  then show "b \<in> set (rows w)" and "deletedAt b = None"
    by (simp_all add: getBlogs_slug_where_def)
  from r have "status b = status_filter q"
    by (simp add: getBlogs_slug_where_def)
  then show "status b = (case q_status q of
                        None \<Rightarrow> ''published''
                      | Some st \<Rightarrow> if st = [] then ''published'' else st)"
    by (simp add: status_filter_def key_truthy_def key_text_def split: option.splits)
next
  assume h: "data (fst (getBlogs e px q v)) = Some (blogs', pg') \<and> b' \<in> set blogs'"
  then have "b' \<in> set (rows v) \<and> getBlogs_where px q b'"
    using list_blogs_data [of e "getBlogs_where px q" q v blogs' pg' b']
    by (simp add: getBlogs_def)
  then show "b' \<in> set (rows v)" and "deletedAt b' = None"
    by (simp_all add: getBlogs_where_def)
next
  have "getBlogs_where px (q\<lparr>q_status := asked\<rparr>) = (getBlogs_where px q :: blog \<Rightarrow> bool)"
    by (rule ext) (simp add: getBlogs_where_def)
  then show "getBlogs e px (q\<lparr>q_status := asked\<rparr>) v = getBlogs e px q v"
    by (simp add: getBlogs_def list_blogs_def page_of_def)
qed

theorem getBlogs_default_filter_witness:
  "data (fst (getBlogs_slug example_env example_platform default_query slug_world))
     = Some ([guide_row],
             \<lparr>total = 1, page = 1, limit = 20, totalPages = 1, hasMore = False\<rparr>)
   \<and> deletedAt guide_row = None \<and> status guide_row = ''published''
   \<and> data (fst (getBlogs example_env example_platform default_query post_world))
     = Some ([post_row],
             \<lparr>total = 1, page = 1, limit = 20, totalPages = 1, hasMore = False\<rparr>)
   \<and> deletedAt post_row = None
   \<and> getBlogs example_env example_platform (default_query\<lparr>q_status := Some ''archived''\<rparr>)
         post_world
       = getBlogs example_env example_platform default_query post_world"
proof -
  have a: "db_answers 2 slug_world"
    by (simp add: db_answers_def slug_world_def empty_world_def)
  have a': "db_answers 2 post_world"
    by (simp add: db_answers_def post_world_def empty_world_def)
  have "fst (getBlogs_slug example_env example_platform default_query slug_world)
          = ok_response 200 None
               (Some (take (or_default (q_limit default_query) 20)
                        (drop ((or_default (q_page default_query) 1 - 1)
                                 * or_default (q_limit default_query) 20)
                           (sort_key (\<lambda>b. - createdAt b)
                              (filter (getBlogs_slug_where example_platform default_query)
                                 (rows slug_world)))),
                      page_of default_query
                        (length (filter (getBlogs_slug_where example_platform default_query)
                                   (rows slug_world)))))"
    unfolding getBlogs_slug_def by (rule list_blogs_answered [OF a])
  then have d: "data (fst (getBlogs_slug example_env example_platform default_query slug_world))
     = Some ([guide_row],
             \<lparr>total = 1, page = 1, limit = 20, totalPages = 1, hasMore = False\<rparr>)"
    by (simp add: ok_response_def
          getBlogs_slug_where_def status_filter_def default_query_def parse_tags_def
          key_truthy_def slug_world_def empty_world_def guide_row_def retired_row_def
          draft_row_def page_of_def or_default_def)
  have "fst (getBlogs example_env example_platform default_query post_world)
          = ok_response 200 None
               (Some (take (or_default (q_limit default_query) 20)
                        (drop ((or_default (q_page default_query) 1 - 1)
                                 * or_default (q_limit default_query) 20)
                           (sort_key (\<lambda>b. - createdAt b)
                              (filter (getBlogs_where example_platform default_query)
                                 (rows post_world)))),
                      page_of default_query
                        (length (filter (getBlogs_where example_platform default_query)
                                   (rows post_world)))))"
    unfolding getBlogs_def by (rule list_blogs_answered [OF a'])
  then have d': "data (fst (getBlogs example_env example_platform default_query post_world))
     = Some ([post_row],
             \<lparr>total = 1, page = 1, limit = 20, totalPages = 1, hasMore = False\<rparr>)"
    by (simp add: ok_response_def
          getBlogs_where_def default_query_def parse_tags_def
          key_truthy_def post_world_def empty_world_def post_row_def
          page_of_def or_default_def)
  have m: "guide_row \<in> set [guide_row]" and m': "post_row \<in> set [post_row]"
    by simp_all
  have q: "q_status default_query = None"
    by (simp add: default_query_def)
  from a d d' m m' getBlogs_default_filter
      [of slug_world example_env example_platform default_query "[guide_row]"
          "\<lparr>total = 1, page = 1, limit = 20, totalPages = 1, hasMore = False\<rparr>"
          guide_row post_world "[post_row]"
          "\<lparr>total = 1, page = 1, limit = 20, totalPages = 1, hasMore = False\<rparr>" post_row
          "Some ''archived''"]
  show ?thesis
    by (simp add: q)
qed

text \<open>
  The claim as written fails for the id-keyed controller: asked for \<open>status=draft\<close>, it
  gives the answer it gives when no status is asked for, a page holding record 1. The
  caller's status overrides nothing there, and no status is applied by default.
\<close>

theorem getBlogs_counterexample:
  "q_status draft_query = Some ''draft''
   \<and> q_status default_query = None
   \<and> data (fst (getBlogs example_env example_platform draft_query post_world))
       = Some ([post_row],
               \<lparr>total = 1, page = 1, limit = 20, totalPages = 1, hasMore = False\<rparr>)
   \<and> getBlogs example_env example_platform draft_query post_world
       = getBlogs example_env example_platform default_query post_world"
proof -
  have a: "db_answers 2 post_world"
    by (simp add: db_answers_def post_world_def empty_world_def)
  have "fst (getBlogs example_env example_platform draft_query post_world)
          = ok_response 200 None
               (Some (take (or_default (q_limit draft_query) 20)
                        (drop ((or_default (q_page draft_query) 1 - 1)
                                 * or_default (q_limit draft_query) 20)
                           (sort_key (\<lambda>b. - createdAt b)
                              (filter (getBlogs_where example_platform draft_query)
                                 (rows post_world)))),
                      page_of draft_query
                        (length (filter (getBlogs_where example_platform draft_query)
                                   (rows post_world)))))"
    unfolding getBlogs_def by (rule list_blogs_answered [OF a])
  then have d: "data (fst (getBlogs example_env example_platform draft_query post_world))
     = Some ([post_row],
             \<lparr>total = 1, page = 1, limit = 20, totalPages = 1, hasMore = False\<rparr>)"
    by (simp add: ok_response_def
          getBlogs_where_def draft_query_def default_query_def parse_tags_def
          key_truthy_def post_world_def empty_world_def post_row_def
          page_of_def or_default_def)
  have "getBlogs_where example_platform draft_query
          = (getBlogs_where example_platform default_query :: blog \<Rightarrow> bool)"
    by (rule ext) (simp add: getBlogs_where_def draft_query_def)
  then have s: "getBlogs example_env example_platform draft_query post_world
       = getBlogs example_env example_platform default_query post_world"
    by (simp add: getBlogs_def list_blogs_def page_of_def draft_query_def)
  from d s show ?thesis
    by (simp add: draft_query_def default_query_def)
qed

section \<open>Reading a record and counting the view\<close>

lemma find_id_distinct:
  assumes "distinct (map blog_id rs)" "b \<in> set rs"
  shows "find (\<lambda>r. blog_id r = blog_id b) rs = Some b"
  using assms
proof (induction rs)
  case Nil
  then show ?case by simp
next
  case (Cons r rs)
  then show ?case by (cases "r = b") force+
qed

lemma find_in_set: "find P rs = Some b \<Longrightarrow> b \<in> set rs"
  by (induction rs) (auto split: if_splits)

lemma increment_views_returns: "fst (increment_views i w) = Inr ()"
  by (auto simp: increment_views_def try_catch_def await_def return_def logger_error_def
        split: prod.splits sum.splits)

lemma increment_views_fault:
  assumes "db_faults w = Some err # rest"
  shows "increment_views i w
           = (Inr (), w\<lparr>db_faults := rest,
                        error_log := error_log w
                           @ [''Failed to increment views: '' @ err_message err]\<rparr>)"
  using assms
  by (simp add: increment_views_def try_catch_def await_def blog_update_def prisma_def
        logger_error_def)

lemma increment_views_done:
  assumes "db_answers 1 w" "find (\<lambda>r. blog_id r = i) (rows w) = Some b"
  shows "increment_views i w
           = (Inr (), w\<lparr>db_faults := tl (db_faults w),
                        rows := map (\<lambda>r. if blog_id r = i
                                          then b\<lparr>views := views b + 1, updatedAt := clock w\<rparr>
                                          else r) (rows w)\<rparr>)"
proof -
  have a: "db_answers (Suc 0) w"
    using assms(1) by simp
  show ?thesis
    by (simp add: increment_views_def try_catch_def await_def blog_update_def
          prisma_answered(1) [OF a] assms(2) return_def Let_def)
qed

lemma await_Inr:
  assumes "await m k w = (Inr r, w')"
  obtains v w1 where "m w = (Inr v, w1)" and "k v w1 = (Inr r, w')"
  using assms by (auto simp: await_def split: prod.splits sum.splits)

lemma controller_200:
  assumes "status_code (fst (controller block (answer_500 e l m) w)) = 200"
  obtains r w' where "block w = (Inr r, w')" and "fst (controller block (answer_500 e l m) w) = r"
  using assms
  by (auto simp: controller_def answer_500_def split: prod.splits sum.splits)

lemma fetch_content_views:
  assumes "fetch_content e px c w = (Inr r, w')" and "status_code r = 200"
  shows "\<exists>p. data r = Some p \<and> cp_views p = views c + 1"
proof -
  from assms(1) obtain s3Key w2 where
    k2: "(if \<not> key_truthy s3Key then
            return (refusal 500 ''Invalid content URL format'')
          else
            await (s3_send (GetObjectCommand (key_text s3Key)))
              (\<lambda>s3Response.
            await (presign_cover e px (coverImageUrl c))
              (\<lambda>presignedCoverUrl.
            return (ok_response 200 None
              (Some \<lparr>cp_id = blog_id c, cp_title = title c, cp_tags = tags c,
                     cp_coverImageUrl = presignedCoverUrl,
                     cp_readTime = readTime c,
                     cp_views = views c + 1,
                     cp_likes = likes c,
                     cp_createdAt = createdAt c, cp_updatedAt = updatedAt c,
                     cp_content = key_text s3Response\<rparr>))))) w2 = (Inr r, w')"
    unfolding fetch_content_def by (rule await_Inr)
  show ?thesis
  proof (cases "key_truthy s3Key")
    case False
    with k2 have "r = refusal 500 ''Invalid content URL format''"
      by (simp add: return_def)
    with assms(2) show ?thesis
      by (simp add: refusal_def)
  next
    case True
    with k2 have "await (s3_send (GetObjectCommand (key_text s3Key)))
              (\<lambda>s3Response.
            await (presign_cover e px (coverImageUrl c))
              (\<lambda>presignedCoverUrl.
            return (ok_response 200 None
              (Some \<lparr>cp_id = blog_id c, cp_title = title c, cp_tags = tags c,
                     cp_coverImageUrl = presignedCoverUrl,
                     cp_readTime = readTime c,
                     cp_views = views c + 1,
                     cp_likes = likes c,
                     cp_createdAt = createdAt c, cp_updatedAt = updatedAt c,
                     cp_content = key_text s3Response\<rparr>)))) w2 = (Inr r, w')"
      by simp
    then obtain s3Response w3 where
      k3: "await (presign_cover e px (coverImageUrl c))
              (\<lambda>presignedCoverUrl.
            return (ok_response 200 None
              (Some \<lparr>cp_id = blog_id c, cp_title = title c, cp_tags = tags c,
                     cp_coverImageUrl = presignedCoverUrl,
                     cp_readTime = readTime c,
                     cp_views = views c + 1,
                     cp_likes = likes c,
                     cp_createdAt = createdAt c, cp_updatedAt = updatedAt c,
                     cp_content = key_text s3Response\<rparr>))) w3 = (Inr r, w')"
      by (rule await_Inr)
    then obtain presignedCoverUrl w4 where
      "return (ok_response 200 None
              (Some \<lparr>cp_id = blog_id c, cp_title = title c, cp_tags = tags c,
                     cp_coverImageUrl = presignedCoverUrl,
                     cp_readTime = readTime c,
                     cp_views = views c + 1,
                     cp_likes = likes c,
                     cp_createdAt = createdAt c, cp_updatedAt = updatedAt c,
                     cp_content = key_text s3Response\<rparr>)) w4 = (Inr r, w')"
      by (rule await_Inr)
    then have "r = ok_response 200 None
              (Some \<lparr>cp_id = blog_id c, cp_title = title c, cp_tags = tags c,
                     cp_coverImageUrl = presignedCoverUrl,
                     cp_readTime = readTime c,
                     cp_views = views c + 1,
                     cp_likes = likes c,
                     cp_createdAt = createdAt c, cp_updatedAt = updatedAt c,
                     cp_content = key_text s3Response\<rparr>)"
      by (simp add: return_def)
    then show ?thesis
      by (simp add: ok_response_def)
  qed
qed

lemma s3_onlyD:
  assumes "s3_only m" and "same_s3 w w'"
  shows "fst (m w) = fst (m w') \<and> same_s3 (snd (m w)) (snd (m w'))
         \<and> error_log (snd (m w)) = error_log w"
  using assms by (simp add: s3_only_def)

lemma s3_only_return: "s3_only (return v)"
  by (simp add: s3_only_def return_def)

lemma s3_only_throw: "s3_only (throw err)"
  by (simp add: s3_only_def throw_def)

lemma s3_only_lift: "s3_only (lift r)"
  by (cases r) (simp_all add: lift_def s3_only_return s3_only_throw)

lemma s3_only_s3_send: "s3_only (s3_send cmd)"
  by (auto simp: s3_only_def same_s3_def s3_send_def s3_run_def Let_def
        split: list.splits option.splits s3_command.splits)

lemma s3_only_await:
  fixes m :: "('x, 'r) io" and k :: "'x \<Rightarrow> ('y, 'r) io"
  assumes "s3_only m" and "\<And>v. s3_only (k v)"
  shows "s3_only (await m k)"
  unfolding s3_only_def
proof (intro allI impI)
  fix w w' :: "'r world"
  assume same: "same_s3 w w'"
  obtain r w1 where m: "m w = (r, w1)"
    by (cases "m w")
  obtain r' w1' where m': "m w' = (r', w1')"
    by (cases "m w'")
  from s3_onlyD [OF assms(1) same] m m'
  have r: "r' = r" and s1: "same_s3 w1 w1'" and l1: "error_log w1 = error_log w"
    by simp_all
  show "fst (await m k w) = fst (await m k w') \<and> same_s3 (snd (await m k w)) (snd (await m k w'))
        \<and> error_log (snd (await m k w)) = error_log w"
  proof (cases r)
    case (Inl err)
    with m m' r s1 l1 show ?thesis
      by (simp add: await_def)
  next
    case (Inr v)
    from s3_onlyD [OF assms(2) s1]
    have "fst (k v w1) = fst (k v w1') \<and> same_s3 (snd (k v w1)) (snd (k v w1'))
          \<and> error_log (snd (k v w1)) = error_log w1" .
    with m m' r Inr l1 show ?thesis
      by (simp add: await_def)
  qed
qed

lemma s3_only_presign_cover: "s3_only (presign_cover e px coverUrl)"
  by (auto simp: presign_cover_def s3_only_return
        intro!: s3_only_await s3_only_lift split: option.splits)

lemma s3_only_fetch_content: "s3_only (fetch_content e px c)"
  unfolding fetch_content_def
  by (intro s3_only_await s3_only_lift)
     (auto simp: s3_only_return intro!: s3_only_await s3_only_s3_send s3_only_presign_cover)

lemma same_s3_increment_views: "same_s3 (snd (increment_views i w)) w"
  by (auto simp: increment_views_def try_catch_def await_def blog_update_def prisma_def
        return_def logger_error_def same_s3_def Let_def
        split: prod.splits sum.splits list.splits option.splits)

lemma same_s3_db_faults: "same_s3 (w\<lparr>db_faults := fs\<rparr>) w"
  by (simp add: same_s3_def)

lemma same_s3_trans: "same_s3 a b \<Longrightarrow> same_s3 b c \<Longrightarrow> same_s3 a c"
  by (simp add: same_s3_def)

lemma same_s3_sym: "same_s3 a b \<Longrightarrow> same_s3 b a"
  by (simp add: same_s3_def)

text \<open>
  \<open>getBlogContent\<close> for a live row that the lookup finds: the handler is the rest of the
  pipeline, run in the world the detached increment leaves.
\<close>

lemma getBlogContent_found:
  assumes "find (\<lambda>r. blog_id r = i) (rows v) = Some c" "deletedAt c = None" "db_answers 1 v"
  shows "getBlogContent e px i v
           = controller (fetch_content e px c)
               (answer_500 e ''Get blog content error: '' ''Failed to fetch blog content'')
               (snd (increment_views (blog_id c) (v\<lparr>db_faults := tl (db_faults v)\<rparr>)))"
proof -
  have a: "db_answers (Suc 0) v"
    using assms(3) by simp
  let ?v1 = "v\<lparr>db_faults := tl (db_faults v)\<rparr>"
  obtain v2 where inc: "increment_views (blog_id c) ?v1 = (Inr (), v2)"
    using increment_views_returns [of "blog_id c" ?v1]
    by (cases "increment_views (blog_id c) ?v1") simp
  show ?thesis
    by (simp add: getBlogContent_def controller_def getBlogContent_try_def await_def
          findUnique_id_def prisma_answered(1) [OF a] assms(1,2) inc)
qed

lemma controller_s3_only:
  assumes "s3_only block" and "same_s3 w w'"
  shows "fst (controller block (answer_500 e l m) w)
           = fst (controller block (answer_500 e l m) w')"
    and "prefix (error_log w) (error_log (snd (controller block (answer_500 e l m) w)))"
proof -
  obtain r w1 where b: "block w = (r, w1)"
    by (cases "block w")
  obtain r' w1' where b': "block w' = (r', w1')"
    by (cases "block w'")
  from s3_onlyD [OF assms] b b' have r: "r' = r" and l: "error_log w1 = error_log w"
    by simp_all
  show "fst (controller block (answer_500 e l m) w)
           = fst (controller block (answer_500 e l m) w')"
    using b b' r by (cases r) (simp_all add: controller_def answer_500_def)
  show "prefix (error_log w) (error_log (snd (controller block (answer_500 e l m) w)))"
    using b l by (cases r) (simp_all add: controller_def answer_500_def)
qed

lemma getBlogContent_views:
  assumes "find (\<lambda>r. blog_id r = i) (rows v) = Some c" "deletedAt c = None" "db_answers 1 v"
    and "status_code (fst (getBlogContent e px i v)) = 200"
  shows "\<exists>p. data (fst (getBlogContent e px i v)) = Some p \<and> cp_views p = views c + 1"
proof -
  let ?v2 = "snd (increment_views (blog_id c) (v\<lparr>db_faults := tl (db_faults v)\<rparr>))"
  have run: "getBlogContent e px i v
           = controller (fetch_content e px c)
               (answer_500 e ''Get blog content error: '' ''Failed to fetch blog content'') ?v2"
    using assms(1-3) by (rule getBlogContent_found)
  from assms(4) obtain r w' where
    blk: "fetch_content e px c ?v2 = (Inr r, w')"
    and res: "fst (controller (fetch_content e px c)
               (answer_500 e ''Get blog content error: '' ''Failed to fetch blog content'') ?v2)
              = r"
    unfolding run by (rule controller_200)
  have "status_code r = 200"
    using assms(4) res run by simp
  from fetch_content_views [OF blk this] show ?thesis
    using res run by simp
qed

lemma getBlogContent_increment_hidden:
  assumes "find (\<lambda>r. blog_id r = i) (rows v) = Some c" "deletedAt c = None" "db_answers 1 v"
  shows "fst (getBlogContent e px i v) = fst (getBlogContent e px i (v\<lparr>db_faults := []\<rparr>))"
proof -
  let ?v1 = "v\<lparr>db_faults := tl (db_faults v)\<rparr>"
  let ?u = "v\<lparr>db_faults := []\<rparr>"
  let ?u1 = "?u\<lparr>db_faults := tl (db_faults ?u)\<rparr>"
  have fu: "find (\<lambda>r. blog_id r = i) (rows ?u) = Some c" and au: "db_answers 1 ?u"
    using assms(1) by (simp_all add: db_answers_def)
  have "same_s3 (snd (increment_views (blog_id c) ?v1)) ?v1"
    by (rule same_s3_increment_views)
  moreover have "same_s3 ?v1 ?u1"
    by (simp add: same_s3_def)
  moreover have "same_s3 ?u1 (snd (increment_views (blog_id c) ?u1))"
    by (rule same_s3_sym) (rule same_s3_increment_views)
  ultimately have "same_s3 (snd (increment_views (blog_id c) ?v1))
                     (snd (increment_views (blog_id c) ?u1))"
    by (blast intro: same_s3_trans)
  from controller_s3_only(1) [OF s3_only_fetch_content this]
  show ?thesis
    unfolding getBlogContent_found [OF assms] getBlogContent_found [OF fu assms(2) au] .
qed

lemma getBlogContent_increment_logged:
  assumes "find (\<lambda>r. blog_id r = i) (rows v) = Some c" "deletedAt c = None" "db_answers 1 v"
    and "tl (db_faults v) = Some err # rest"
  shows "prefix (error_log v @ [''Failed to increment views: '' @ err_message err])
           (error_log (snd (getBlogContent e px i v)))"
proof -
  let ?v1 = "v\<lparr>db_faults := tl (db_faults v)\<rparr>"
  have "db_faults ?v1 = Some err # rest"
    using assms(4) by simp
  from increment_views_fault [OF this, of "blog_id c"]
  have "error_log (snd (increment_views (blog_id c) ?v1))
          = error_log v @ [''Failed to increment views: '' @ err_message err]"
    by simp
  with controller_s3_only(2) [OF s3_only_fetch_content, of
         "snd (increment_views (blog_id c) ?v1)" "snd (increment_views (blog_id c) ?v1)"]
  show ?thesis
    unfolding getBlogContent_found [OF assms(1-3)] by (simp add: same_s3_def)
qed

text \<open>
  C6, as the code has it. \<open>getBlogBySlug\<close> answers with the row as it was read, so with the
  views before the increment, whatever becomes of the increment: when the update fails,
  the table is unchanged and one line is logged; when it is answered, the row's views
  are one more afterwards. \<open>getBlogContent\<close> issues the same detached increment: its
  answer is the one it gives in a world where the record store never fails, and a failed
  increment is logged. But whenever it answers 200, the views in its payload are the
  row's views plus one.
\<close>

theorem read_views_payload:
  assumes "find (\<lambda>r. slug r = s) (rows w) = Some b" and "deletedAt b = None"
    and "db_answers 1 w"
  shows "fst (getBlogBySlug e s w) = ok_response 200 None (Some b)
       \<and> (tl (db_faults w) = Some err # rest \<longrightarrow>
            rows (snd (getBlogBySlug e s w)) = rows w
            \<and> error_log (snd (getBlogBySlug e s w))
                = error_log w @ [''Failed to increment views: '' @ err_message err])
       \<and> (db_answers 2 w \<and> distinct (map blog_id (rows w)) \<longrightarrow>
            rows (snd (getBlogBySlug e s w))
              = map (\<lambda>r. if blog_id r = blog_id b
                         then b\<lparr>views := views b + 1, updatedAt := clock w\<rparr> else r) (rows w))
       \<and> (find (\<lambda>r. blog_id r = i) (rows v) = Some c \<and> deletedAt c = None \<and> db_answers 1 v
            \<longrightarrow>
            fst (getBlogContent e px i v) = fst (getBlogContent e px i (v\<lparr>db_faults := []\<rparr>))
            \<and> (tl (db_faults v) = Some err' # rest' \<longrightarrow>
                 prefix (error_log v @ [''Failed to increment views: '' @ err_message err'])
                   (error_log (snd (getBlogContent e px i v))))
            \<and> (status_code (fst (getBlogContent e px i v)) = 200 \<longrightarrow>
                 (\<exists>p. data (fst (getBlogContent e px i v)) = Some p
                      \<and> cp_views p = views c + 1)))"
proof (intro conjI impI)
  have a: "db_answers (Suc 0) w"
    using assms(3) by simp
  let ?w1 = "w\<lparr>db_faults := tl (db_faults w)\<rparr>"
  have run: "getBlogBySlug e s w
               = (ok_response 200 None (Some b), snd (increment_views (blog_id b) ?w1))"
    using increment_views_returns [of "blog_id b" ?w1]
    by (cases "increment_views (blog_id b) ?w1")
       (simp add: getBlogBySlug_def controller_def getBlogBySlug_try_def await_def
          findUnique_slug_def prisma_answered(1) [OF a] assms(1,2) return_def)
  show "fst (getBlogBySlug e s w) = ok_response 200 None (Some b)"
    by (simp add: run)
  show "rows (snd (getBlogBySlug e s w)) = rows w"
    if "tl (db_faults w) = Some err # rest"
    using increment_views_fault [of ?w1 err rest "blog_id b"] that by (simp add: run)
  show "error_log (snd (getBlogBySlug e s w))
          = error_log w @ [''Failed to increment views: '' @ err_message err]"
    if "tl (db_faults w) = Some err # rest"
    using increment_views_fault [of ?w1 err rest "blog_id b"] that by (simp add: run)
  show "rows (snd (getBlogBySlug e s w))
          = map (\<lambda>r. if blog_id r = blog_id b
                     then b\<lparr>views := views b + 1, updatedAt := clock w\<rparr> else r) (rows w)"
    if h: "db_answers 2 w \<and> distinct (map blog_id (rows w))"
  proof -
    have "db_answers (Suc (Suc 0)) w"
      using h by (simp add: numeral_2_eq_2)
    then have a1: "db_answers 1 ?w1"
      using prisma_answered(2) by simp
    have "b \<in> set (rows w)"
      using assms(1) by (rule find_in_set)
    then have "find (\<lambda>r. blog_id r = blog_id b) (rows w) = Some b"
      using h by (simp add: find_id_distinct)
    then have "find (\<lambda>r. blog_id r = blog_id b) (rows ?w1) = Some b"
      by simp
    from increment_views_done [OF a1 this] show ?thesis
      by (simp add: run)
  qed
next
  assume h: "find (\<lambda>r. blog_id r = i) (rows v) = Some c \<and> deletedAt c = None \<and> db_answers 1 v"
  then show "fst (getBlogContent e px i v) = fst (getBlogContent e px i (v\<lparr>db_faults := []\<rparr>))"
    using getBlogContent_increment_hidden by blast
  show "prefix (error_log v @ [''Failed to increment views: '' @ err_message err'])
          (error_log (snd (getBlogContent e px i v)))"
    if "tl (db_faults v) = Some err' # rest'"
    using h that getBlogContent_increment_logged by blast
  show "\<exists>p. data (fst (getBlogContent e px i v)) = Some p \<and> cp_views p = views c + 1"
    if "status_code (fst (getBlogContent e px i v)) = 200"
    using h that getBlogContent_views by blast
qed

lemma getBlogContent_post_world:
  "fst (getBlogContent example_env example_platform 1 post_world)
     = ok_response 200 None
         (Some \<lparr>cp_id = 1, cp_title = ''A post'', cp_tags = [], cp_coverImageUrl = None,
                cp_readTime = None, cp_views = 1, cp_likes = 0, cp_createdAt = 10,
                cp_updatedAt = 10, cp_content = ''<p>first</p>''\<rparr>)"
  by (simp add: getBlogContent_def controller_def getBlogContent_try_def fetch_content_def
        await_def findUnique_id_def prisma_def increment_views_def try_catch_def blog_update_def
        lift_def extractS3Key_def replace_s3_prefix_def key_truthy_def key_text_def
        s3_send_def s3_run_def presign_cover_def return_def throw_def ok_response_def
        post_world_def post_row_def empty_world_def example_env_def Let_def)

theorem read_views_payload_witness:
  "views guide_row = 0
   \<and> fst (getBlogBySlug example_env ''a-guide'' slug_world)
       = ok_response 200 None (Some guide_row)
   \<and> rows (snd (getBlogBySlug example_env ''a-guide'' slug_world))
       = [guide_row\<lparr>views := 1, updatedAt := 30\<rparr>, retired_row, draft_row]
   \<and> fst (getBlogBySlug example_env ''a-guide''
            (slug_world\<lparr>db_faults := [None, Some (Err ''Error'' ''connection lost'')]\<rparr>))
       = ok_response 200 None (Some guide_row)
   \<and> error_log (snd (getBlogBySlug example_env ''a-guide''
            (slug_world\<lparr>db_faults := [None, Some (Err ''Error'' ''connection lost'')]\<rparr>)))
       = [''Failed to increment views: connection lost'']
   \<and> (\<exists>p. data (fst (getBlogContent example_env example_platform 1 post_world)) = Some p
            \<and> cp_views p = 1)"
proof -
  let ?faulty = "slug_world\<lparr>db_faults := [None, Some (Err ''Error'' ''connection lost'')]\<rparr>"
  have f: "find (\<lambda>r. slug r = ''a-guide'') (rows slug_world) = Some guide_row"
    by (simp add: slug_world_def empty_world_def guide_row_def)
  have f': "find (\<lambda>r. slug r = ''a-guide'') (rows ?faulty) = Some guide_row"
    by (simp add: slug_world_def empty_world_def guide_row_def)
  have live: "deletedAt guide_row = None" and fresh: "views guide_row = 0"
    by (simp_all add: guide_row_def)
  have a1: "db_answers 1 slug_world" and a2: "db_answers 2 slug_world"
    by (simp_all add: db_answers_def slug_world_def empty_world_def)
  have a1': "db_answers 1 ?faulty"
    by (simp add: db_answers_def)
  have ids: "distinct (map blog_id (rows slug_world))"
    by (simp add: slug_world_def empty_world_def guide_row_def retired_row_def draft_row_def)
  have fault: "tl (db_faults ?faulty) = Some (Err ''Error'' ''connection lost'') # []"
    by simp
  have g: "find (\<lambda>r. blog_id r = 1) (rows post_world) = Some post_row
           \<and> deletedAt post_row = None \<and> db_answers 1 post_world
           \<and> status_code (fst (getBlogContent example_env example_platform 1 post_world)) = 200"
    by (simp add: getBlogContent_post_world ok_response_def)
       (simp add: post_world_def post_row_def empty_world_def db_answers_def)
  note clean = read_views_payload [OF f live a1, where e = example_env and i = 1
            and v = post_world and c = post_row and px = example_platform
            and err = "Err [] []" and rest = "[]" and err' = "Err [] []" and rest' = "[]"]
  note broken = read_views_payload [OF f' live a1', where e = example_env
            and err = "Err ''Error'' ''connection lost''" and rest = "[]" and i = 1
            and v = post_world and c = post_row and px = example_platform
            and err' = "Err [] []" and rest' = "[]"]
  have c1: "fst (getBlogBySlug example_env ''a-guide'' slug_world)
              = ok_response 200 None (Some guide_row)"
    using clean by blast
  have "rows (snd (getBlogBySlug example_env ''a-guide'' slug_world))
          = map (\<lambda>r. if blog_id r = blog_id guide_row
                     then guide_row\<lparr>views := views guide_row + 1, updatedAt := clock slug_world\<rparr>
                     else r) (rows slug_world)"
    using clean a2 ids by blast
  then have c2: "rows (snd (getBlogBySlug example_env ''a-guide'' slug_world))
                   = [guide_row\<lparr>views := 1, updatedAt := 30\<rparr>, retired_row, draft_row]"
    by (simp add: slug_world_def empty_world_def guide_row_def retired_row_def draft_row_def)
  have "\<exists>p. data (fst (getBlogContent example_env example_platform 1 post_world)) = Some p
            \<and> cp_views p = views post_row + 1"
    using clean g by blast
  then have c3: "\<exists>p. data (fst (getBlogContent example_env example_platform 1 post_world)) = Some p
            \<and> cp_views p = 1"
    by (simp add: post_row_def)
  have c4: "fst (getBlogBySlug example_env ''a-guide'' ?faulty)
              = ok_response 200 None (Some guide_row)"
    using broken by blast
  have "error_log (snd (getBlogBySlug example_env ''a-guide'' ?faulty))
          = error_log ?faulty
              @ [''Failed to increment views: '' @ err_message (Err ''Error'' ''connection lost'')]"
    using broken fault by blast
  then have c5: "error_log (snd (getBlogBySlug example_env ''a-guide'' ?faulty))
                   = [''Failed to increment views: connection lost'']"
    by (simp add: slug_world_def empty_world_def)
  from fresh c1 c2 c3 c4 c5 show ?thesis
    by blast
qed

text \<open>
  The claim as written fails for the content path: the row of record 1 has no views yet,
  and the payload of its first content fetch reports one view.
\<close>

theorem getBlogContent_counterexample:
  "views post_row = 0
   \<and> data (fst (getBlogContent example_env example_platform 1 post_world))
       = Some \<lparr>cp_id = 1, cp_title = ''A post'', cp_tags = [], cp_coverImageUrl = None,
               cp_readTime = None, cp_views = 1, cp_likes = 0, cp_createdAt = 10,
               cp_updatedAt = 10, cp_content = ''<p>first</p>''\<rparr>"
  by (simp add: getBlogContent_post_world ok_response_def) (simp add: post_row_def)

section \<open>Permanent deletion\<close>

lemma keeps_db_return: "keeps_db (return v)"
  by (simp add: keeps_db_def return_def)

lemma keeps_db_throw: "keeps_db (throw err)"
  by (simp add: keeps_db_def throw_def)

lemma keeps_db_logger_error: "keeps_db (logger_error line)"
  by (simp add: keeps_db_def logger_error_def db_part_def)

lemma keeps_db_lift: "keeps_db (lift r)"
  by (cases r) (simp_all add: lift_def keeps_db_return keeps_db_throw)

lemma keeps_db_await:
  assumes "keeps_db m" and "\<And>v. keeps_db (k v)"
  shows "keeps_db (await m k)"
  unfolding keeps_db_def
proof
  fix w
  show "db_part (snd (await m k w)) = db_part w"
  proof (cases "m w")
    case (Pair r w1)
    then have w1: "db_part w1 = db_part w"
      using assms(1) by (metis keeps_db_def snd_conv)
    show ?thesis
    proof (cases r)
      case (Inl err)
      with Pair w1 show ?thesis by (simp add: await_def)
    next
      case (Inr v)
      have "db_part (snd (k v w1)) = db_part w1"
        using assms(2) by (simp add: keeps_db_def)
      with Pair Inr w1 show ?thesis by (simp add: await_def)
    qed
  qed
qed

lemma keeps_db_try_catch:
  assumes "keeps_db m" and "\<And>err. keeps_db (h err)"
  shows "keeps_db (try_catch m h)"
  unfolding keeps_db_def
proof
  fix w
  show "db_part (snd (try_catch m h w)) = db_part w"
  proof (cases "m w")
    case (Pair r w1)
    then have w1: "db_part w1 = db_part w"
      using assms(1) by (metis keeps_db_def snd_conv)
    show ?thesis
    proof (cases r)
      case (Inr v)
      with Pair w1 show ?thesis by (simp add: try_catch_def)
    next
      case (Inl err)
      have "db_part (snd (h err w1)) = db_part w1"
        using assms(2) by (simp add: keeps_db_def)
      with Pair Inl w1 show ?thesis by (simp add: try_catch_def)
    qed
  qed
qed

lemma keeps_db_s3_send: "keeps_db (s3_send cmd)"
  by (auto simp: keeps_db_def s3_send_def s3_run_def db_part_def Let_def
        split: list.splits option.splits s3_command.splits)

lemma keeps_db_deleteFile: "keeps_db (deleteFile key)"
  unfolding deleteFile_def
  by (intro keeps_db_try_catch keeps_db_await keeps_db_s3_send keeps_db_return
        keeps_db_logger_error keeps_db_throw)

lemma keeps_db_fileExists: "keeps_db (fileExists key)"
  unfolding fileExists_def
  by (intro keeps_db_try_catch keeps_db_await keeps_db_s3_send keeps_db_return)
     (simp add: keeps_db_return keeps_db_throw)

lemma keeps_db_delete_if_exists: "keeps_db (delete_if_exists key)"
  by (auto simp: delete_if_exists_def keeps_db_return keeps_db_deleteFile
        intro!: keeps_db_await keeps_db_fileExists split: option.splits)

lemma delete_each_db: "db_part (snd (delete_each keys w)) = db_part w"
proof (induction keys arbitrary: w)
  case Nil
  then show ?case by simp
next
  case (Cons key keys)
  obtain r w1 where h: "fileExists key w = (r, w1)"
    by (cases "fileExists key w")
  then have w1: "db_part w1 = db_part w"
    using keeps_db_fileExists [of key] by (metis keeps_db_def snd_conv)
  show ?case
  proof (cases r)
    case (Inl err)
    with h w1 show ?thesis by simp
  next
    case (Inr found)
    show ?thesis
    proof (cases found)
      case False
      with h Inr w1 Cons.IH [of w1] show ?thesis by simp
    next
      case True
      obtain r2 w2 where d: "deleteFile key w1 = (r2, w2)"
        by (cases "deleteFile key w1")
      then have w2: "db_part w2 = db_part w1"
        using keeps_db_deleteFile [of key] by (metis keeps_db_def snd_conv)
      show ?thesis
      proof (cases r2)
        case (Inl err)
        with h Inr True d w1 w2 show ?thesis by simp
      next
        case (Inr u)
        with h \<open>r = Inr found\<close> True d w1 w2 Cons.IH [of w2] show ?thesis by simp
      qed
    qed
  qed
qed

lemma keeps_db_delete_each: "keeps_db (delete_each keys)"
  by (simp add: keeps_db_def delete_each_db)

lemma keeps_db_deleteBlogFiles: "keeps_db (deleteBlogFiles e blogId contentLocator coverLocator)"
  unfolding deleteBlogFiles_def deleteBlogFiles_try_def
  by (intro keeps_db_try_catch keeps_db_await keeps_db_logger_error)
     (simp_all add: keeps_db_await keeps_db_lift keeps_db_delete_if_exists keeps_db_delete_each)

lemma deleteBlogFiles_returns: "fst (deleteBlogFiles e blogId contentLocator coverLocator w) = Inr ()"
  by (auto simp: deleteBlogFiles_def try_catch_def logger_error_def split: prod.splits sum.splits)

text \<open>
  C5. For a record that exists, whatever the bucket holds and however the object store
  answers (every fault schedule), \<open>permanentDeleteBlog\<close> answers 200 and the row is gone
  from the table afterwards, provided the record store answers the lookup and the
  delete. The cleanup never lets an exception escape: \<open>deleteBlogFiles\<close> returns
  normally on every blog reference, every pair of locators and every world.
\<close>

theorem permanentDeleteBlog_removes_row:
  assumes "find (\<lambda>r. blog_id r = i) (rows w) = Some b" and "db_answers 2 w"
  shows "fst (permanentDeleteBlog e i w)
           = ok_response 200 (Some ''Blog permanently deleted'') None
       \<and> rows (snd (permanentDeleteBlog e i w)) = filter (\<lambda>r. blog_id r \<noteq> i) (rows w)
       \<and> fst (deleteBlogFiles e blogId contentLocator coverLocator v) = Inr ()"
proof -
  have a: "db_answers (Suc (Suc 0)) w"
    using assms(2) by (simp add: numeral_2_eq_2)
  let ?w1 = "w\<lparr>db_faults := tl (db_faults w)\<rparr>"
  have a1: "db_answers (Suc 0) ?w1"
    using prisma_answered(2) [OF a] .
  obtain w2 where del: "deleteBlogFiles e (RefId i) JNull JNull ?w1 = (Inr (), w2)"
    using deleteBlogFiles_returns [of e "RefId i" JNull JNull ?w1]
    by (cases "deleteBlogFiles e (RefId i) JNull JNull ?w1") simp
  have "db_part w2 = db_part ?w1"
    using keeps_db_deleteBlogFiles [of e "RefId i" JNull JNull] del
    by (metis keeps_db_def snd_conv)
  then have same: "rows w2 = rows w" "db_faults w2 = tl (db_faults w)"
    by (simp_all add: db_part_def)
  have a2: "db_answers (Suc 0) w2"
    using a1 same by (simp add: db_answers_def)
  have run: "permanentDeleteBlog e i w
               = (ok_response 200 (Some ''Blog permanently deleted'') None,
                  w2\<lparr>db_faults := tl (db_faults w2),
                      rows := filter (\<lambda>r. blog_id r \<noteq> i) (rows w2)\<rparr>)"
    by (simp add: permanentDeleteBlog_def controller_def permanentDeleteBlog_try_def
          await_def findUnique_id_def prisma_answered(1) [OF a] assms(1) del
          blog_delete_def prisma_answered(1) [OF a2] same return_def)
  show ?thesis
    by (simp add: run same deleteBlogFiles_returns)
qed

lemma decimal_9: "decimal 9 = ''9''"
  by code_simp

lemma permanentDeleteBlog_corrupt_world:
  "error_log (snd (permanentDeleteBlog example_env 9 corrupt_world))
     = [''S3 delete error: socket hang up'',
        ''Error deleting blog files for ID 9: Failed to delete file from S3: socket hang up'']
   \<and> objects (snd (permanentDeleteBlog example_env 9 corrupt_world)) ''blogs/9/content.html''
     = Some \<lparr>body = ''<p>old</p>'', contentType = Some ''text/html''\<rparr>"
  by (simp add: permanentDeleteBlog_def controller_def permanentDeleteBlog_try_def await_def
        findUnique_id_def blog_delete_def prisma_def deleteBlogFiles_def deleteBlogFiles_try_def
        try_catch_def legacy_content_keys_def legacy_cover_keys_def imageExtensions_def
        fileExists_def deleteFile_def s3_send_def s3_run_def logger_error_def return_def
        throw_def new_Error_def decimal_9 corrupt_world_def corrupt_row_def post_row_def
        empty_world_def Let_def)

theorem permanentDeleteBlog_removes_row_witness:
  "extractKeyFromUrl example_env (nullable (coverImageUrl corrupt_row)) = Inr None
   \<and> fst (permanentDeleteBlog example_env 9 corrupt_world)
       = ok_response 200 (Some ''Blog permanently deleted'') None
   \<and> rows (snd (permanentDeleteBlog example_env 9 corrupt_world)) = []
   \<and> error_log (snd (permanentDeleteBlog example_env 9 corrupt_world))
       = [''S3 delete error: socket hang up'',
          ''Error deleting blog files for ID 9: Failed to delete file from S3: socket hang up'']
   \<and> fst (deleteBlogFiles example_env (RefId 9) (JStr (contentUrl corrupt_row))
            (nullable (coverImageUrl corrupt_row)) corrupt_world) = Inr ()"
proof -
  have f: "find (\<lambda>r. blog_id r = 9) (rows corrupt_world) = Some corrupt_row"
    by (simp add: corrupt_world_def corrupt_row_def empty_world_def)
  have a: "db_answers 2 corrupt_world"
    by (simp add: db_answers_def corrupt_world_def empty_world_def)
  have k: "extractKeyFromUrl example_env (nullable (coverImageUrl corrupt_row)) = Inr None"
    by (simp add: extractKeyFromUrl_def nullable_def corrupt_row_def match_here_def
          cdn_applies_def example_env_def)
  have r: "filter (\<lambda>r. blog_id r \<noteq> 9) (rows corrupt_world) = []"
    by (simp add: corrupt_world_def corrupt_row_def empty_world_def)
  from permanentDeleteBlog_removes_row
         [OF f a, of example_env "RefId 9" "JStr (contentUrl corrupt_row)"
            "nullable (coverImageUrl corrupt_row)" corrupt_world]
       k r permanentDeleteBlog_corrupt_world
  show ?thesis by simp
qed

section \<open>Replacing the content of a record\<close>

lemma s3_send_answered:
  assumes "s3_answers_next (Suc n) w"
  shows "s3_send cmd w = s3_run cmd (w\<lparr>sent := sent w @ [cmd], s3_faults := tl (s3_faults w)\<rparr>)"
    and "s3_answers_next n (w\<lparr>sent := sent w @ [cmd], s3_faults := tl (s3_faults w)\<rparr>)"
  using assms by (cases "s3_faults w"; auto simp: s3_send_def s3_answers_next_def)+

lemma s3_answers_next_tl:
  assumes "s3_answers_next (Suc n) w" and "s3_faults w' = tl (s3_faults w)"
  shows "s3_answers_next n w'"
  using assms by (cases "s3_faults w") (auto simp: s3_answers_next_def)

lemma fileExists_answered:
  assumes "s3_answers_next (Suc n) w" and "objects w key = Some obj"
  shows "fileExists key w
           = (Inr True, w\<lparr>sent := sent w @ [HeadObjectCommand key],
                          s3_faults := tl (s3_faults w)\<rparr>)"
  by (simp add: fileExists_def try_catch_def await_def s3_send_answered(1) [OF assms(1)]
        s3_run_def assms(2) return_def)

lemma deleteFile_answered:
  assumes "s3_answers_next (Suc n) w"
  shows "deleteFile key w
           = (Inr (), w\<lparr>sent := sent w @ [DeleteObjectCommand key],
                        s3_faults := tl (s3_faults w),
                        objects := (objects w)(key := None)\<rparr>)"
  by (simp add: deleteFile_def try_catch_def await_def s3_send_answered(1) [OF assms]
        s3_run_def return_def)

lemma uploadFile_answered:
  assumes "s3_answers_next (Suc n) w"
  shows "uploadFile e bytes key ctype w
           = (Inr (s3_uri (S3_BUCKET e) key),
              w\<lparr>sent := sent w @ [PutObjectCommand key \<lparr>body = bytes, contentType = ctype\<rparr>],
                 s3_faults := tl (s3_faults w),
                 objects := (objects w)(key \<mapsto> \<lparr>body = bytes, contentType = ctype\<rparr>)\<rparr>)"
  by (simp add: uploadFile_def try_catch_def await_def s3_send_answered(1) [OF assms]
        s3_run_def return_def s3_uri_def)

text \<open>
  The service function by itself does what its documentation says. Called with a locator
  whose key names an object of the bucket, and answered by the object store, it asks
  whether the old object exists, deletes it, and only then puts the new bytes under the
  key derived from the file name; it returns the \<open>s3://\<close> locator of that key.
\<close>

lemma replaceBlogContent_sequence:
  assumes "extractKeyFromUrl e oldUrl = Inr (Some oldKey)" and "oldKey \<noteq> []"
    and "objects w oldKey = Some old" and "s3_answers_next 3 w"
  shows "replaceBlogContent e oldUrl bytes blogId name ctype w
           = (Inr (s3_uri (S3_BUCKET e) (content_key blogId name)),
              w\<lparr>sent := sent w @ [HeadObjectCommand oldKey, DeleteObjectCommand oldKey,
                                    PutObjectCommand (content_key blogId name)
                                      \<lparr>body = bytes, contentType = ctype\<rparr>],
                 s3_faults := tl (tl (tl (s3_faults w))),
                 objects := ((objects w)(oldKey := None))
                              (content_key blogId name \<mapsto> \<lparr>body = bytes, contentType = ctype\<rparr>)\<rparr>)"
proof -
  have a3: "s3_answers_next (Suc (Suc (Suc 0))) w"
    using assms(4) by (simp add: numeral_3_eq_3)
  let ?w1 = "w\<lparr>sent := sent w @ [HeadObjectCommand oldKey], s3_faults := tl (s3_faults w)\<rparr>"
  have head: "fileExists oldKey w = (Inr True, ?w1)"
    using a3 assms(3) by (rule fileExists_answered)
  have a2: "s3_answers_next (Suc (Suc 0)) ?w1"
    using a3 by (rule s3_answers_next_tl) simp
  let ?w2 = "?w1\<lparr>sent := sent ?w1 @ [DeleteObjectCommand oldKey],
                 s3_faults := tl (s3_faults ?w1),
                 objects := (objects ?w1)(oldKey := None)\<rparr>"
  have del: "deleteFile oldKey ?w1 = (Inr (), ?w2)"
    using a2 by (rule deleteFile_answered)
  have a1: "s3_answers_next (Suc 0) ?w2"
    using a2 by (rule s3_answers_next_tl) simp
  have put: "uploadFile e bytes (content_key blogId name) ctype ?w2
               = (Inr (s3_uri (S3_BUCKET e) (content_key blogId name)),
                  ?w2\<lparr>sent := sent ?w2 @ [PutObjectCommand (content_key blogId name)
                                              \<lparr>body = bytes, contentType = ctype\<rparr>],
                       s3_faults := tl (s3_faults ?w2),
                       objects := (objects ?w2)(content_key blogId name
                                     \<mapsto> \<lparr>body = bytes, contentType = ctype\<rparr>)\<rparr>)"
    using a1 by (rule uploadFile_answered)
  from head del put show ?thesis
    using assms(1,2)
    by (simp add: replaceBlogContent_def delete_if_exists_def uploadBlogContent_def
          await_def lift_def return_def)
qed

lemma replaceBlogContent_other_key:
  assumes "extractKeyFromUrl e oldUrl = Inr (Some oldKey)" and "oldKey \<noteq> []"
    and "objects w oldKey = Some old" and "s3_answers_next 3 w"
    and "oldKey \<noteq> content_key blogId name"
  shows "objects (snd (replaceBlogContent e oldUrl bytes blogId name ctype w)) oldKey = None"
    and "objects (snd (replaceBlogContent e oldUrl bytes blogId name ctype w))
           (content_key blogId name) = Some \<lparr>body = bytes, contentType = ctype\<rparr>"
  using assms(5) by (simp_all add: replaceBlogContent_sequence [OF assms(1-4)])

text \<open>
  The world \<open>post_world\<close> is what an update that uploads \<open>post.html\<close> for record 1
  leaves behind: the same object under the same key, and the same locator in the row.
\<close>

lemma post_world_after_html_upload:
  "objects (snd (updateBlog example_env example_platform html_update post_world))
     = objects post_world
   \<and> map contentUrl (rows (snd (updateBlog example_env example_platform html_update post_world)))
     = map contentUrl (rows post_world)"
  by (simp add: updateBlog_def controller_def updateBlog_try_def await_def findUnique_id_def
        prisma_def blog_update_def updateData_of_body_def apply_update_data_def
        replace_content_slot_def replace_cover_slot_def replaceBlogContent_def
        delete_if_exists_def fileExists_def deleteFile_def uploadBlogContent_def
        uploadFile_def content_key_def decimal_1 try_catch_def s3_send_def s3_run_def
        lift_def return_def throw_def sanitizeHTMLToBuffer_def sanitizeHTML_def js_trim_def
        js_whitespace_def extractKeyFromUrl_def replace_s3_prefix_def ok_response_def
        html_update_def htm_update_def html_upload_def post_world_def post_row_def
        empty_world_def example_env_def example_platform_def Let_def)

text \<open>
  C1 against the controller. Record 1 holds content that was uploaded as \<open>post.html\<close>;
  the update brings \<open>post.htm\<close>, a file with another extension and the same MIME type.
  \<open>updateBlog\<close> passes the MIME type where \<open>replaceBlogContent\<close> expects the file name,
  so the key derived for the new file is the key of the old one: the update answers 200,
  the old object was deleted before the put, and after the update the old key is in the
  bucket again, holding the new bytes.
\<close>

theorem updateBlog_same_key:
  "extractKeyFromUrl example_env (JStr (contentUrl post_row)) = Inr (Some ''blogs/1/text/html'')
   \<and> posix_extname ''post.html'' = ''.html''
   \<and> posix_extname (originalname htm_upload) = ''.htm''
   \<and> fst (updateBlog example_env example_platform htm_update post_world)
       = ok_response 200 (Some ''Blog updated successfully'')
           (Some (post_row\<lparr>updatedAt := 30\<rparr>))
   \<and> sent (snd (updateBlog example_env example_platform htm_update post_world))
       = [HeadObjectCommand ''blogs/1/text/html'', DeleteObjectCommand ''blogs/1/text/html'',
          PutObjectCommand ''blogs/1/text/html''
            \<lparr>body = ''<p>second</p>'', contentType = None\<rparr>]
   \<and> objects (snd (updateBlog example_env example_platform htm_update post_world))
         ''blogs/1/text/html''
       = Some \<lparr>body = ''<p>second</p>'', contentType = None\<rparr>"
proof -
  have k: "extractKeyFromUrl example_env (JStr (contentUrl post_row))
             = Inr (Some ''blogs/1/text/html'')"
    by (simp add: extractKeyFromUrl_def replace_s3_prefix_def post_row_def)
  have x: "posix_extname ''post.html'' = ''.html''
           \<and> posix_extname (originalname htm_upload) = ''.htm''"
    by (simp add: posix_extname_def htm_upload_def)
  have san: "sanitizeHTMLToBuffer example_platform (buffer htm_upload) = Inr ''<p>second</p>''"
    by (simp add: sanitizeHTMLToBuffer_def sanitizeHTML_def example_platform_def htm_upload_def
          js_trim_def js_whitespace_def)
  have f: "find (\<lambda>b. blog_id b = 1) (rows post_world) = Some post_row"
    by (simp add: post_world_def post_row_def empty_world_def)
  have run: "updateBlog example_env example_platform htm_update post_world
         = (ok_response 200 (Some ''Blog updated successfully'')
              (Some (post_row\<lparr>updatedAt := 30\<rparr>)),
            post_world\<lparr>sent := [HeadObjectCommand ''blogs/1/text/html'',
                               DeleteObjectCommand ''blogs/1/text/html'',
                               PutObjectCommand ''blogs/1/text/html''
                                 \<lparr>body = ''<p>second</p>'', contentType = None\<rparr>],
                       objects := [''blogs/1/text/html''
                                     \<mapsto> \<lparr>body = ''<p>second</p>'', contentType = None\<rparr>],
                       rows := [post_row\<lparr>updatedAt := 30\<rparr>]\<rparr>)"
    by (simp add: updateBlog_def controller_def updateBlog_try_def await_def findUnique_id_def
          prisma_def blog_update_def updateData_of_body_def apply_update_data_def
          replace_content_slot_def replace_cover_slot_def replaceBlogContent_def
          delete_if_exists_def fileExists_def deleteFile_def uploadBlogContent_def
          uploadFile_def content_key_def decimal_1 try_catch_def s3_send_def s3_run_def
          lift_def return_def throw_def sanitizeHTMLToBuffer_def sanitizeHTML_def js_trim_def
          js_whitespace_def extractKeyFromUrl_def replace_s3_prefix_def ok_response_def
          htm_update_def htm_upload_def post_world_def post_row_def empty_world_def
          example_env_def example_platform_def Let_def)
  show ?thesis
    using k x by (simp add: run)
qed

end
